theory Spec2Isabelle
  imports Complex_Main "HOL-Library.Sublist" "HOL-Library.Char_ord" "HOL-Library.List_Lexorder"
    "HOL-Library.Multiset"
begin

section \<open>Python strings\<close>

text \<open>
  A Python \<open>str\<close> is modelled as a \<open>string\<close>, a list of characters whose codes are the
  code points below 256, in the order of their codes. On these, \<open>str.isspace\<close> holds
  for the codes 9 to 13, 28 to 32, 133 and 160, and \<open>str.lower\<close> shifts A to Z and the
  capital letters 192 to 222 (the multiplication sign 215 apart) by 32: in these codes
  bit 5 is clear, and adding 32 sets it.
\<close>

definition py_isspace :: "char \<Rightarrow> bool" where
  "py_isspace c =
     ((CHR 0x09 \<le> c \<and> c \<le> CHR 0x0D) \<or> (CHR 0x1C \<le> c \<and> c \<le> CHR 0x20)
      \<or> c = CHR 0x85 \<or> c = CHR 0xA0)"

definition py_lower_char :: "char \<Rightarrow> char" where
  "py_lower_char c =
     (if (CHR ''A'' \<le> c \<and> c \<le> CHR ''Z'')
         \<or> (CHR 0xC0 \<le> c \<and> c \<le> CHR 0xDE \<and> c \<noteq> CHR 0xD7)
      then (case c of Char b0 b1 b2 b3 b4 b5 b6 b7 \<Rightarrow> Char b0 b1 b2 b3 b4 True b6 b7)
      else c)"

definition py_lower :: "string \<Rightarrow> string" where
  "py_lower s = map py_lower_char s"

definition py_strip :: "string \<Rightarrow> string" where
  "py_strip s = rev (dropWhile py_isspace (rev (dropWhile py_isspace s)))"

text \<open>
  \<open>s.replace(old, new)\<close> and \<open>s.count(old)\<close> scan \<open>s\<close> from the left and take
  non-overlapping occurrences of \<open>old\<close>. With an empty \<open>old\<close>, Python counts
  \<open>len(s) + 1\<close> occurrences and puts \<open>new\<close> before every character and at the end.
\<close>

function py_replace_scan :: "string \<Rightarrow> string \<Rightarrow> string \<Rightarrow> string" where
  "py_replace_scan [] old new = []"
| "py_replace_scan (c # cs) old new =
     (if old \<noteq> [] \<and> prefix old (c # cs)
      then new @ py_replace_scan (drop (length old) (c # cs)) old new
      else c # py_replace_scan cs old new)"
  by pat_completeness auto
termination
  by (relation "measure (\<lambda>(s, old, new). length s)") (auto simp: neq_Nil_conv)

definition py_replace :: "string \<Rightarrow> string \<Rightarrow> string \<Rightarrow> string" where
  "py_replace s old new =
     (if old = [] then new @ concat (map (\<lambda>c. c # new) s) else py_replace_scan s old new)"

function py_count_scan :: "string \<Rightarrow> string \<Rightarrow> nat" where
  "py_count_scan [] old = 0"
| "py_count_scan (c # cs) old =
     (if old \<noteq> [] \<and> prefix old (c # cs)
      then Suc (py_count_scan (drop (length old) (c # cs)) old)
      else py_count_scan cs old)"
  by pat_completeness auto
termination
  by (relation "measure (\<lambda>(s, old). length s)") (auto simp: neq_Nil_conv)

definition py_count :: "string \<Rightarrow> string \<Rightarrow> nat" where
  "py_count s old = (if old = [] then length s + 1 else py_count_scan s old)"

section \<open>Python dictionaries\<close>

text \<open>
  A \<open>dict\<close> keeps its keys in insertion order, and assigning to a key that is present
  keeps the key's place: an association list with distinct keys.
\<close>

fun dict_set :: "('k \<times> 'v) list \<Rightarrow> 'k \<Rightarrow> 'v \<Rightarrow> ('k \<times> 'v) list" where
  "dict_set [] k v = [(k, v)]"
| "dict_set ((k', v') # d) k v =
     (if k' = k then (k', v) # d else (k', v') # dict_set d k v)"

definition dict_get :: "('k \<times> 'v) list \<Rightarrow> 'k \<Rightarrow> 'v option" where
  "dict_get d k = map_of d k"

definition dict_has :: "('k \<times> 'v) list \<Rightarrow> 'k \<Rightarrow> bool" where
  "dict_has d k = (map_of d k \<noteq> None)"

section \<open>Cells and tables\<close>

text \<open>
  A cell read by pandas is a missing value (\<open>NaN\<close>), a string, an integer, a float or a
  boolean. A float cell carries its value, a rational, together with the text that
  Python's \<open>str\<close> prints for it (the shortest decimal that reads back as the same
  binary64), which is not computed here.

  A \<open>DataFrame\<close> has its column names, which are strings, and its rows in file order;
  a row gives the cell of every column, and is read at columns of its table only.
\<close>

datatype cell = NaN | StrV string | IntV int | FloatV rat string | BoolV bool

datatype py_error =
  ValueError | TypeError | IndexError | KeyError | OverflowError
  | CannotOpenExcel | CannotReadTemplate

type_synonym row = "string \<Rightarrow> cell"

record dataframe =
  columns :: "string list"
  rows :: "row list"

definition df_empty :: "dataframe \<Rightarrow> bool" where
  "df_empty df = (columns df = [] \<or> rows df = [])"

definition py_isna :: "cell \<Rightarrow> bool" where
  "py_isna v = (v = NaN)"

text \<open>\<open>xs.iloc[i]\<close>: a negative position counts from the end; out of range it raises.\<close>

definition iloc :: "'a list \<Rightarrow> int \<Rightarrow> py_error + 'a" where
  "iloc xs i =
     (if 0 \<le> i \<and> i < int (length xs) then Inr (xs ! nat i)
      else if i < 0 \<and> - int (length xs) \<le> i then Inr (xs ! nat (int (length xs) + i))
      else Inl IndexError)"

section \<open>Column Resolver\<close>

definition normalize_name :: "string \<Rightarrow> string" where
  "normalize_name name = py_replace (py_replace (py_strip (py_lower name)) '' '' '''') ''_'' ''''"

text \<open>
  The dict comprehension \<open>{normalized(col): col for col in df.columns}\<close>: a later column
  with the same normal form takes the entry of an earlier one.
\<close>

definition df_columns_lower :: "string list \<Rightarrow> (string \<times> string) list" where
  "df_columns_lower cols = foldl (\<lambda>d col. dict_set d (normalize_name col) col) [] cols"

fun find_column_loop :: "(string \<times> string) list \<Rightarrow> string list \<Rightarrow> string option" where
  "find_column_loop d [] = None"
| "find_column_loop d (name # names) =
     (if dict_has d (normalize_name name) then dict_get d (normalize_name name)
      else find_column_loop d names)"

definition find_column :: "dataframe option \<Rightarrow> string list \<Rightarrow> string option" where
  "find_column df possible_names =
     (case df of
        None \<Rightarrow> None
      | Some d \<Rightarrow>
          if df_empty d then None
          else find_column_loop (df_columns_lower (columns d)) possible_names)"

section \<open>Safe Cell Reader\<close>

text \<open>The body of the \<open>try\<close> block of \<open>safe_get_value\<close>.\<close>

definition safe_get_value_try :: "dataframe \<Rightarrow> string \<Rightarrow> int \<Rightarrow> cell \<Rightarrow> py_error + cell" where
  "safe_get_value_try df column_name row_idx dflt =
     (if int (length (rows df)) \<le> row_idx then Inr dflt
      else case iloc (rows df) row_idx of
             Inl e \<Rightarrow> Inl e
           | Inr r \<Rightarrow> if py_isna (r column_name) then Inr dflt else Inr (r column_name))"

text \<open>
  \<open>safe_get_value\<close> returns its default when the table or the column name is \<open>None\<close>
  or the column is not in the table, and turns every exception of the \<open>try\<close> block into
  the default.
\<close>

definition safe_get_value :: "dataframe option \<Rightarrow> string option \<Rightarrow> int \<Rightarrow> cell \<Rightarrow> cell" where
  "safe_get_value df column_name row_idx dflt =
     (case df of
        None \<Rightarrow> dflt
      | Some d \<Rightarrow>
          (case column_name of
             None \<Rightarrow> dflt
           | Some c \<Rightarrow>
               if c \<notin> set (columns d) then dflt
               else (case safe_get_value_try d c row_idx dflt of
                       Inl e \<Rightarrow> dflt
                     | Inr v \<Rightarrow> v)))"

section \<open>Python conversions\<close>

definition digit_char :: "nat \<Rightarrow> char" where
  "digit_char d = ''0123456789'' ! d"

function show_nat :: "nat \<Rightarrow> string" where
  "show_nat n =
     (if n < 10 then [digit_char n]
      else show_nat (n div 10) @ [digit_char (n mod 10)])"
  by pat_completeness auto
termination
  by (relation "measure id") auto

definition show_int :: "int \<Rightarrow> string" where
  "show_int i = (if i < 0 then CHR ''-'' # show_nat (nat (- i)) else show_nat (nat i))"

text \<open>\<open>str(v)\<close> of a cell.\<close>

fun py_str :: "cell \<Rightarrow> string" where
  "py_str NaN = ''nan''"
| "py_str (StrV s) = s"
| "py_str (IntV i) = show_int i"
| "py_str (FloatV x printed) = printed"
| "py_str (BoolV b) = (if b then ''True'' else ''False'')"

text \<open>The truth value of a cell in a condition.\<close>

fun py_truth :: "cell \<Rightarrow> bool" where
  "py_truth NaN = True"
| "py_truth (StrV s) = (s \<noteq> [])"
| "py_truth (IntV i) = (i \<noteq> 0)"
| "py_truth (FloatV x printed) = (x \<noteq> 0)"
| "py_truth (BoolV b) = b"

text \<open>The truth value of an optional string, as in \<open>if cabinet_col:\<close>.\<close>

fun col_truth :: "string option \<Rightarrow> bool" where
  "col_truth None = False"
| "col_truth (Some s) = (s \<noteq> [])"

definition is_digit :: "char \<Rightarrow> bool" where
  "is_digit c = (CHR ''0'' \<le> c \<and> c \<le> CHR ''9'')"

definition digit_val :: "char \<Rightarrow> nat" where
  "digit_val c = of_char c - 48"

text \<open>
  A digit part of a Python number: digits, with single underscores between them.
  The result is the value read and the number of digits.
\<close>

fun digitpart_from :: "nat \<times> nat \<Rightarrow> string \<Rightarrow> (nat \<times> nat) option" where
  "digitpart_from (v, n) [] = Some (v, n)"
| "digitpart_from (v, n) [c] =
     (if is_digit c then Some (10 * v + digit_val c, Suc n) else None)"
| "digitpart_from (v, n) (c # d # ds) =
     (if c = CHR ''_'' then
        (if is_digit d then digitpart_from (10 * v + digit_val d, Suc n) ds else None)
      else if is_digit c then digitpart_from (10 * v + digit_val c, Suc n) (d # ds)
      else None)"

fun digitpart :: "string \<Rightarrow> (nat \<times> nat) option" where
  "digitpart [] = None"
| "digitpart (c # cs) = (if is_digit c then digitpart_from (digit_val c, 1) cs else None)"

text \<open>An optional sign before the rest of a number: the sign, 1 or -1, and the rest.\<close>

fun split_sign :: "string \<Rightarrow> int \<times> string" where
  "split_sign [] = (1, [])"
| "split_sign (c # cs) =
     (if c = CHR ''-'' then (- 1, cs) else if c = CHR ''+'' then (1, cs) else (1, c # cs))"

text \<open>\<open>int(s)\<close> of a string, in base 10.\<close>

definition int_of_str :: "string \<Rightarrow> py_error + int" where
  "int_of_str s =
     (case split_sign (py_strip s) of
        (sign, body) \<Rightarrow>
          (case digitpart body of
             None \<Rightarrow> Inl ValueError
           | Some (v, n) \<Rightarrow> Inr (sign * int v)))"

text \<open>
  A Python float is a finite value, an infinity or a not-a-number. A finite value is kept
  exact here, where Python rounds it to the nearest binary64: the two agree on every
  integer below \<open>2 ^ 53\<close> in magnitude.
\<close>

datatype py_float_val = Finite rat | Infinite | NotANumber

definition trunc :: "rat \<Rightarrow> int" where
  "trunc x = (if 0 \<le> x then \<lfloor>x\<rfloor> else \<lceil>x\<rceil>)"

text \<open>\<open>int(x)\<close> of a float and of a cell.\<close>

fun int_of_float :: "py_float_val \<Rightarrow> py_error + int" where
  "int_of_float (Finite x) = Inr (trunc x)"
| "int_of_float Infinite = Inl OverflowError"
| "int_of_float NotANumber = Inl ValueError"

fun py_int :: "cell \<Rightarrow> py_error + int" where
  "py_int NaN = Inl ValueError"
| "py_int (StrV s) = int_of_str s"
| "py_int (IntV i) = Inr i"
| "py_int (FloatV x printed) = Inr (trunc x)"
| "py_int (BoolV b) = Inr (if b then 1 else 0)"

text \<open>
  The text of a float: a mantissa \<open>digits\<close>, \<open>digits.\<close>, \<open>.digits\<close> or \<open>digits.digits\<close>,
  then an optional exponent \<open>e\<close> or \<open>E\<close> with an optional sign and digits.
\<close>

definition mantissa :: "string \<Rightarrow> rat option" where
  "mantissa m =
     (let ip = takeWhile (\<lambda>c. c \<noteq> CHR ''.'') m; rest = dropWhile (\<lambda>c. c \<noteq> CHR ''.'') m
      in if rest = [] then map_option (\<lambda>(v, n). of_nat v) (digitpart ip)
         else (let fp = tl rest
               in if ip = [] \<and> fp = [] then None
                  else (case (if ip = [] then Some (0, 0) else digitpart ip,
                              if fp = [] then Some (0, 0) else digitpart fp) of
                          (Some (iv, k), Some (fv, n)) \<Rightarrow> Some (of_nat iv + of_nat fv / 10 ^ n)
                        | _ \<Rightarrow> None)))"

definition exponent :: "string \<Rightarrow> int option" where
  "exponent e =
     (case split_sign e of
        (sign, body) \<Rightarrow> map_option (\<lambda>(v, n). sign * int v) (digitpart body))"

definition is_exp_char :: "char \<Rightarrow> bool" where
  "is_exp_char c = (c = CHR ''e'' \<or> c = CHR ''E'')"

definition float_of_str :: "string \<Rightarrow> py_error + py_float_val" where
  "float_of_str s =
     (case split_sign (py_strip s) of
        (sign, body) \<Rightarrow>
          if py_lower body = ''inf'' \<or> py_lower body = ''infinity'' then Inr Infinite
          else if py_lower body = ''nan'' then Inr NotANumber
          else (let m = takeWhile (\<lambda>c. \<not> is_exp_char c) body;
                    rest = dropWhile (\<lambda>c. \<not> is_exp_char c) body
                in case (mantissa m, if rest = [] then Some 0 else exponent (tl rest)) of
                     (Some x, Some k) \<Rightarrow>
                       Inr (Finite (of_int sign * x * (if 0 \<le> k then 10 ^ nat k else 1 / 10 ^ nat (- k))))
                   | _ \<Rightarrow> Inl ValueError))"

text \<open>\<open>float(v)\<close> of a cell.\<close>

fun py_float :: "cell \<Rightarrow> py_error + py_float_val" where
  "py_float NaN = Inr NotANumber"
| "py_float (StrV s) = float_of_str s"
| "py_float (IntV i) = Inr (Finite (of_int i))"
| "py_float (FloatV x printed) = Inr (Finite x)"
| "py_float (BoolV b) = Inr (Finite (if b then 1 else 0))"

text \<open>\<open>str(int(float(v))).strip()\<close>.\<close>

definition str_int_float :: "cell \<Rightarrow> py_error + string" where
  "str_int_float v =
     (case py_float v of
        Inl e \<Rightarrow> Inl e
      | Inr x \<Rightarrow> (case int_of_float x of Inl e \<Rightarrow> Inl e | Inr i \<Rightarrow> Inr (py_strip (show_int i))))"

text \<open>The comparisons of a column with a value, cell by cell.\<close>

fun cell_eq_true :: "cell \<Rightarrow> bool" where
  "cell_eq_true (BoolV b) = b"
| "cell_eq_true (IntV i) = (i = 1)"
| "cell_eq_true (FloatV x printed) = (x = 1)"
| "cell_eq_true v = False"

fun cell_eq_str :: "cell \<Rightarrow> string \<Rightarrow> bool" where
  "cell_eq_str (StrV s) t = (s = t)"
| "cell_eq_str v t = False"

section \<open>Band patterns\<close>

text \<open>
  \<open>re.search\<close> tries a pattern at every position from the left and returns the first
  match; the functions below match one pattern at the start of a string and give
  group 1.
\<close>

fun re_search :: "(string \<Rightarrow> 'a option) \<Rightarrow> string \<Rightarrow> 'a option" where
  "re_search m [] = m []"
| "re_search m (c # cs) = (case m (c # cs) of Some g \<Rightarrow> Some g | None \<Rightarrow> re_search m cs)"

definition is_sector :: "char \<Rightarrow> bool" where
  "is_sector c = (c = CHR ''A'' \<or> c = CHR ''B'' \<or> c = CHR ''C'')"

text \<open>The pattern \<open>_(\d+)[ABC]_\<close>.\<close>

fun lte_band_at :: "string \<Rightarrow> string option" where
  "lte_band_at [] = None"
| "lte_band_at (c # cs) =
     (if c = CHR ''_'' \<and> takeWhile is_digit cs \<noteq> [] then
        (case dropWhile is_digit cs of
           s # u # rest \<Rightarrow> if is_sector s \<and> u = CHR ''_'' then Some (takeWhile is_digit cs) else None
         | _ \<Rightarrow> None)
      else None)"

text \<open>The pattern \<open>_(N\d{3})[ABC]_\<close>.\<close>

fun nr_band_at :: "string \<Rightarrow> string option" where
  "nr_band_at (u # n # d1 # d2 # d3 # s # v # rest) =
     (if u = CHR ''_'' \<and> n = CHR ''N'' \<and> is_digit d1 \<and> is_digit d2 \<and> is_digit d3
         \<and> is_sector s \<and> v = CHR ''_''
      then Some [n, d1, d2, d3] else None)"
| "nr_band_at s = None"

section \<open>Sheet Loader\<close>

text \<open>
  A workbook that opens is the list of its sheets, by name, each with the table that
  \<open>pd.read_excel\<close> reads from it.
\<close>

type_synonym workbook = "(string \<times> dataframe) list"

definition same_sheet_name :: "string \<Rightarrow> string \<Rightarrow> bool" where
  "same_sheet_name wanted avail_sheet = (py_strip (py_lower avail_sheet) = py_strip (py_lower wanted))"

fun load_alternative :: "workbook \<Rightarrow> string list \<Rightarrow> dataframe option" where
  "load_alternative wb [] = None"
| "load_alternative wb (alt_name # alternative_names) =
     (case find (same_sheet_name alt_name) (map fst wb) of
        Some avail_sheet \<Rightarrow> map_of wb avail_sheet
      | None \<Rightarrow> load_alternative wb alternative_names)"

definition safe_load_sheet :: "workbook \<Rightarrow> string \<Rightarrow> string list \<Rightarrow> dataframe option" where
  "safe_load_sheet wb sheet_name alternative_names =
     (if sheet_name \<in> set (map fst wb) then map_of wb sheet_name
      else (case find (same_sheet_name sheet_name) (map fst wb) of
              Some avail_sheet \<Rightarrow> map_of wb avail_sheet
            | None \<Rightarrow> load_alternative wb alternative_names))"

section \<open>Node/Cell Extractor: the primary node\<close>

type_synonym replacements = "(string \<times> string) list"

text \<open>\<open>pd.DataFrame([row])\<close>: the table of one row, with the columns of the row's table.\<close>

definition frame_of_row :: "string list \<Rightarrow> row \<Rightarrow> dataframe" where
  "frame_of_row cols r = \<lparr>columns = cols, rows = [r]\<rparr>"

text \<open>
  The first row whose cabinet flag equals \<open>True\<close>; failing that, the first row with a
  legacy node name that is true and not blank.
\<close>

definition has_enb_name :: "string list \<Rightarrow> string option \<Rightarrow> row \<Rightarrow> bool" where
  "has_enb_name cols enb_name_col r =
     (let enb_val = safe_get_value (Some (frame_of_row cols r)) enb_name_col 0 (StrV [])
      in py_truth enb_val \<and> py_strip (py_str enb_val) \<noteq> [])"

definition select_primary_node :: "dataframe \<Rightarrow> string option \<Rightarrow> string option \<Rightarrow> row option" where
  "select_primary_node df cabinet_col enb_name_col =
     (let by_cabinet =
        (case cabinet_col of
           None \<Rightarrow> None
         | Some c \<Rightarrow>
             if c = [] then None
             else (case filter (\<lambda>r. cell_eq_true (r c)) (rows df) of
                     [] \<Rightarrow> None
                   | r # primary_rows \<Rightarrow> Some r))
      in case by_cabinet of
           Some r \<Rightarrow> Some r
         | None \<Rightarrow>
             if col_truth enb_name_col then find (has_enb_name (columns df) enb_name_col) (rows df)
             else None)"

text \<open>
  \<open>if pd.notna(v): replacements[key] = str(int(float(v))).strip()\<close>, for the two node
  identifiers. The conversion is not inside a \<open>try\<close>: its exception leaves the function.
\<close>

definition set_node_id :: "replacements \<Rightarrow> string \<Rightarrow> cell \<Rightarrow> py_error + replacements" where
  "set_node_id r key v =
     (if \<not> py_isna v then
        (case str_int_float v of Inl e \<Rightarrow> Inl e | Inr s \<Rightarrow> Inr (dict_set r key s))
      else Inr r)"

definition extract_primary_node :: "dataframe option \<Rightarrow> replacements \<Rightarrow> py_error + replacements" where
  "extract_primary_node mixed_mode_df r =
     (case mixed_mode_df of
        None \<Rightarrow> Inr r
      | Some df \<Rightarrow>
          (let cabinet_col = find_column (Some df) [''Cabinet Controlling DUL'', ''CabinetControllingDUL''];
               enb_name_col = find_column (Some df) [''eNodeB Name'', ''eNodeBName''];
               enb_id_col = find_column (Some df) [''eNBId'', ''eNBID''];
               gnb_name_col = find_column (Some df) [''gNodeB Name'', ''gNodeBName''];
               gnb_id_col = find_column (Some df) [''gNBId'', ''gNBID'']
           in case select_primary_node df cabinet_col enb_name_col of
                None \<Rightarrow> Inr r
              | Some primary_node \<Rightarrow>
                  (let one = Some (frame_of_row (columns df) primary_node);
                       site_name = py_strip (py_str (safe_get_value one enb_name_col 0 (StrV [])));
                       r1 = (if site_name \<noteq> []
                             then dict_set (dict_set r ''xxMMBB_Primary_Node_Namexx'' site_name)
                                    ''xxLTE_Site_IDxx'' site_name
                             else r);
                       enb_id_val = safe_get_value one enb_id_col 0 (StrV [])
                   in case set_node_id r1 ''xxLTE_eNBIDxx'' enb_id_val of
                        Inl e \<Rightarrow> Inl e
                      | Inr r2 \<Rightarrow>
                          (let gnb_name = py_strip (py_str (safe_get_value one gnb_name_col 0 (StrV [])));
                               r3 = (if gnb_name \<noteq> [] then dict_set r2 ''xx5G_NR_Node_Namexx'' gnb_name
                                     else r2);
                               gnb_id_val = safe_get_value one gnb_id_col 0 (StrV [])
                           in set_node_id r3 ''xx5G_NR_gNBIDxx'' gnb_id_val))))"

section \<open>Node/Cell Extractor: the DSS cells\<close>

text \<open>
  The statements of the \<open>try\<close> block change the placeholder map one after the other, and
  any of them may raise: each gives the map it leaves and the exception, if any.
\<close>

type_synonym outcome = "replacements \<times> py_error option"

definition and_then :: "outcome \<Rightarrow> (replacements \<Rightarrow> outcome) \<Rightarrow> outcome" where
  "and_then out f = (case out of (r, None) \<Rightarrow> f r | (r, Some e) \<Rightarrow> (r, Some e))"

text \<open>\<open>replacements[key] = str(int(v))\<close>.\<close>

definition set_int :: "string \<Rightarrow> cell \<Rightarrow> replacements \<Rightarrow> outcome" where
  "set_int key v r =
     (case py_int v of Inl e \<Rightarrow> (r, Some e) | Inr i \<Rightarrow> (dict_set r key (show_int i), None))"

text \<open>\<open>replacements[key] = str(int(found.iloc[0][col]))\<close>.\<close>

definition set_first_int :: "string \<Rightarrow> row list \<Rightarrow> string \<Rightarrow> replacements \<Rightarrow> outcome" where
  "set_first_int key found col r =
     (case iloc found 0 of Inl e \<Rightarrow> (r, Some e) | Inr first_row \<Rightarrow> set_int key (first_row col) r)"

text \<open>
  \<open>sort_values(col)\<close>: the rows with a value in ascending order of it, then the rows
  without. Strings are compared with strings and numbers with numbers; comparing a
  string with a number raises. Rows with equal values keep their order here.
\<close>

fun is_str :: "cell \<Rightarrow> bool" where
  "is_str (StrV s) = True"
| "is_str v = False"

fun is_num :: "cell \<Rightarrow> bool" where
  "is_num NaN = False"
| "is_num (StrV s) = False"
| "is_num v = True"

fun str_key :: "cell \<Rightarrow> string" where
  "str_key (StrV s) = s"
| "str_key v = []"

fun num_key :: "cell \<Rightarrow> rat" where
  "num_key (IntV i) = of_int i"
| "num_key (FloatV x printed) = x"
| "num_key (BoolV b) = (if b then 1 else 0)"
| "num_key v = 0"

definition sort_values :: "row list \<Rightarrow> string \<Rightarrow> py_error + row list" where
  "sort_values rs col =
     (let present = filter (\<lambda>r. \<not> py_isna (r col)) rs;
          missing = filter (\<lambda>r. py_isna (r col)) rs
      in if list_all (\<lambda>r. is_str (r col)) present
         then Inr (sort_key (\<lambda>r. str_key (r col)) present @ missing)
         else if list_all (\<lambda>r. is_num (r col)) present
         then Inr (sort_key (\<lambda>r. num_key (r col)) present @ missing)
         else Inl TypeError)"

text \<open>
  The rows of the next-gen node with a cross-reference that is present and is not
  \<open>NO\<close>, sorted by the next-gen cell identifier.
\<close>

definition is_dss_cell :: "string \<Rightarrow> string \<Rightarrow> string \<Rightarrow> row \<Rightarrow> bool" where
  "is_dss_cell gnb_name_5g_col dss_col gnb_name r =
     (cell_eq_str (r gnb_name_5g_col) gnb_name \<and> \<not> py_isna (r dss_col)
      \<and> \<not> cell_eq_str (r dss_col) ''NO'')"

definition select_dss_cells ::
  "dataframe \<Rightarrow> string \<Rightarrow> string \<Rightarrow> string \<Rightarrow> string \<Rightarrow> py_error + row list" where
  "select_dss_cells five_g_df gnb_name_5g_col dss_col nr_cell_col gnb_name =
     sort_values (filter (is_dss_cell gnb_name_5g_col dss_col gnb_name) (rows five_g_df)) nr_cell_col"

text \<open>The legacy cell details, from the sheet \<open>eUtran Parameters\<close>.\<close>

definition get_lte_cell_details ::
  "dataframe option \<Rightarrow> string \<Rightarrow> string \<Rightarrow> string \<Rightarrow> replacements \<Rightarrow> outcome" where
  "get_lte_cell_details eutran_df lte_alpha lte_beta lte_gamma r =
     (case eutran_df of
        None \<Rightarrow> (r, None)
      | Some df \<Rightarrow>
          (let eutran_cell_col = find_column (Some df) [''EutranCellFDDId'', ''EUtranCellFDDId''];
               cell_id_col = find_column (Some df) [''cellId'', ''cellid''];
               sector_id_col = find_column (Some df) [''sectorId'', ''sectorid'']
           in case eutran_cell_col of
                None \<Rightarrow> (r, None)
              | Some ec \<Rightarrow>
                  if ec = [] then (r, None)
                  else
                    (let lte_alpha_row = filter (\<lambda>x. cell_eq_str (x ec) lte_alpha) (rows df);
                         lte_beta_row = filter (\<lambda>x. cell_eq_str (x ec) lte_beta) (rows df);
                         lte_gamma_row = filter (\<lambda>x. cell_eq_str (x ec) lte_gamma) (rows df)
                     in case (cell_id_col, sector_id_col) of
                          (Some ci, Some si) \<Rightarrow>
                            if length lte_alpha_row > 0 \<and> ci \<noteq> [] \<and> si \<noteq> [] then
                              and_then (and_then (and_then (and_then (and_then
                                (set_first_int ''LTE_cellidA'' lte_alpha_row ci r)
                                (set_first_int ''LTE_cellidB'' lte_beta_row ci))
                                (set_first_int ''LTE_cellidC'' lte_gamma_row ci))
                                (set_first_int ''xxLTE_SectorCarrier_No_Alphaxx'' lte_alpha_row si))
                                (set_first_int ''xxLTE_SectorCarrier_No_Betaxx'' lte_beta_row si))
                                (set_first_int ''xxLTE_SectorCarrier_No_Gammaxx'' lte_gamma_row si)
                            else (r, None)
                        | _ \<Rightarrow> (r, None))))"

text \<open>The local identifiers of the three cells, when their column is resolved.\<close>

definition set_cell_local_ids :: "string option \<Rightarrow> row \<Rightarrow> row \<Rightarrow> row \<Rightarrow> replacements \<Rightarrow> outcome" where
  "set_cell_local_ids cell_local_id_col alpha_nr beta_nr gamma_nr r =
     (case cell_local_id_col of
        None \<Rightarrow> (r, None)
      | Some c \<Rightarrow>
          if c = [] then (r, None)
          else and_then (and_then
                 (set_int ''xx5G_celllocalidAxx'' (alpha_nr c) r)
                 (set_int ''xx5G_celllocalidBxx'' (beta_nr c)))
                 (set_int ''xx5G_celllocalidCxx'' (gamma_nr c)))"

text \<open>The sector carriers of the three cells, when their column is resolved.\<close>

definition set_sector_carriers :: "string option \<Rightarrow> row \<Rightarrow> row \<Rightarrow> row \<Rightarrow> replacements \<Rightarrow> replacements" where
  "set_sector_carriers nr_sector_col alpha_nr beta_nr gamma_nr r =
     (case nr_sector_col of
        None \<Rightarrow> r
      | Some c \<Rightarrow>
          if c = [] then r
          else dict_set (dict_set (dict_set r
                 ''xx5G_NRSectorCarrier_Alphaxx'' (py_str (alpha_nr c)))
                 ''xx5G_NRSectorCarrier_Betaxx'' (py_str (beta_nr c)))
                 ''xx5G_NRSectorCarrier_Gammaxx'' (py_str (gamma_nr c)))"

text \<open>What is emitted for the three cells once both band patterns have matched.\<close>

definition emit_dss_cells ::
  "dataframe option \<Rightarrow> string option \<Rightarrow> string option \<Rightarrow> string \<Rightarrow> string \<Rightarrow> string
     \<Rightarrow> row \<Rightarrow> row \<Rightarrow> row \<Rightarrow> replacements \<Rightarrow> outcome" where
  "emit_dss_cells eutran_df cell_local_id_col nr_sector_col dss_col nr_cell_col nr_band
       alpha_nr beta_nr gamma_nr r =
     (let lte_alpha = py_strip (py_str (alpha_nr dss_col));
          lte_beta = py_strip (py_str (beta_nr dss_col));
          lte_gamma = py_strip (py_str (gamma_nr dss_col));
          nr_alpha = py_strip (py_str (alpha_nr nr_cell_col));
          nr_beta = py_strip (py_str (beta_nr nr_cell_col));
          nr_gamma = py_strip (py_str (gamma_nr nr_cell_col))
      in and_then (set_cell_local_ids cell_local_id_col alpha_nr beta_nr gamma_nr r)
           (\<lambda>r1.
              let r2 = set_sector_carriers nr_sector_col alpha_nr beta_nr gamma_nr r1;
                  r3 = dict_set (dict_set (dict_set r2
                         ''xxLTE_Site_IDxx_XA_1'' lte_alpha)
                         ''xxLTE_Site_IDxx_XB_1'' lte_beta)
                         ''xxLTE_Site_IDxx_XC_1'' lte_gamma;
                  r4 = dict_set (dict_set (dict_set r3
                         ''xx5G_NR_Node_Namexx_N00XA_1'' nr_alpha)
                         ''xx5G_NR_Node_Namexx_N00XB_1'' nr_beta)
                         ''xx5G_NR_Node_Namexx_N00XC_1'' nr_gamma;
                  r5 = (case dict_get r4 ''xxLTE_Site_IDxx'' of
                          None \<Rightarrow> r4
                        | Some site_id \<Rightarrow>
                            dict_set (dict_set (dict_set (dict_set r4
                              ''xxMMBB_Primary_Node_Namexx_N00XA_1'' (site_id @ ''_'' @ nr_band @ ''A_1''))
                              ''xxMMBB_Primary_Node_Namexx_N00XB_1'' (site_id @ ''_'' @ nr_band @ ''B_1''))
                              ''xxMMBB_Primary_Node_Namexx_N00XC_1'' (site_id @ ''_'' @ nr_band @ ''C_1''))
                              ''xxLTE_Site_IDxx_X*'' (site_id @ ''_X*''));
                  r6 = dict_set (dict_set (dict_set r5
                         ''N00XA'' (nr_band @ ''A''))
                         ''N00XB'' (nr_band @ ''B''))
                         ''N00XC'' (nr_band @ ''C'')
              in get_lte_cell_details eutran_df lte_alpha lte_beta lte_gamma r6))"

text \<open>The body of the \<open>try\<close> block of the DSS stage.\<close>

definition extract_dss_cells_try :: "dataframe \<Rightarrow> dataframe option \<Rightarrow> replacements \<Rightarrow> outcome" where
  "extract_dss_cells_try five_g_df eutran_df r =
     (case dict_get r ''xx5G_NR_Node_Namexx'' of
        None \<Rightarrow> (r, Some KeyError)
      | Some gnb_name \<Rightarrow>
          (let gnb_name_5g_col = find_column (Some five_g_df) [''gNB Name'', ''gNodeB Name''];
               dss_col = find_column (Some five_g_df) [''DSS'', ''dss''];
               nr_cell_col = find_column (Some five_g_df) [''NRCellDU'', ''NRCellDu''];
               cell_local_id_col = find_column (Some five_g_df) [''cellLocalId'', ''celllocalid''];
               nr_sector_col = find_column (Some five_g_df) [''NRSectorCarrier'', ''nrsectorcarrier'']
           in case (dss_col, gnb_name_5g_col, nr_cell_col) of
                (Some dc, Some gc, Some nc) \<Rightarrow>
                  if dc \<noteq> [] \<and> gc \<noteq> [] \<and> nc \<noteq> [] then
                    (case select_dss_cells five_g_df gc dc nc gnb_name of
                       Inl e \<Rightarrow> (r, Some e)
                     | Inr nr_dss_cells \<Rightarrow>
                         if length nr_dss_cells \<ge> 3 then
                           (let alpha_nr = nr_dss_cells ! 0;
                                beta_nr = nr_dss_cells ! 1;
                                gamma_nr = nr_dss_cells ! 2;
                                lte_alpha = py_strip (py_str (alpha_nr dc));
                                nr_alpha = py_strip (py_str (alpha_nr nc))
                            in case (re_search lte_band_at lte_alpha, re_search nr_band_at nr_alpha) of
                                 (Some lte_band, Some nr_band) \<Rightarrow>
                                   emit_dss_cells eutran_df cell_local_id_col nr_sector_col dc nc nr_band
                                     alpha_nr beta_nr gamma_nr r
                               | _ \<Rightarrow> (r, None))
                         else (r, None))
                  else (r, None)
              | _ \<Rightarrow> (r, None)))"

datatype warning = Error_extracting_DSS_cells py_error

text \<open>
  The DSS stage: it runs when the sheet \<open>5G Info\<close> is loaded and the next-gen node name
  is in the map, and turns an exception of its body into one warning.
\<close>

definition extract_dss_cells ::
  "dataframe option \<Rightarrow> dataframe option \<Rightarrow> replacements \<Rightarrow> warning list
     \<Rightarrow> replacements \<times> warning list" where
  "extract_dss_cells five_g_df eutran_df r warnings =
     (case five_g_df of
        None \<Rightarrow> (r, warnings)
      | Some df \<Rightarrow>
          if dict_has r ''xx5G_NR_Node_Namexx'' then
            (case extract_dss_cells_try df eutran_df r of
               (r', None) \<Rightarrow> (r', warnings)
             | (r', Some e) \<Rightarrow> (r', warnings @ [Error_extracting_DSS_cells e]))
          else (r, warnings))"

section \<open>Template Filler\<close>

text \<open>
  \<open>sorted(replacements.items(), key=lambda x: len(x[0]), reverse=True)\<close>: by falling
  length of the key, entries with keys of one length in the order of the map.
\<close>

definition sorted_replacements :: "replacements \<Rightarrow> (string \<times> string) list" where
  "sorted_replacements r = sort_key (\<lambda>x. - int (length (fst x))) r"

fun fill_loop ::
  "(string \<times> string) list \<Rightarrow> string \<times> (string \<times> nat) list \<Rightarrow> string \<times> (string \<times> nat) list" where
  "fill_loop [] st = st"
| "fill_loop ((placeholder, val) # rest) (filled_content, replacement_count) =
     (let count = py_count filled_content placeholder
      in if count > 0
         then fill_loop rest (py_replace filled_content placeholder val,
                              dict_set replacement_count placeholder count)
         else fill_loop rest (filled_content, replacement_count))"

definition fill_template :: "replacements \<Rightarrow> string \<Rightarrow> string \<times> (string \<times> nat) list" where
  "fill_template r template_content = fill_loop (sorted_replacements r) (template_content, [])"

section \<open>Orchestrator\<close>

text \<open>
  \<open>process_template\<close> is given the workbook at \<open>excel_path\<close>, \<open>None\<close> when it cannot be
  opened, and the text of the template at \<open>template_path\<close>, \<open>None\<close> when it cannot be
  read. A workbook that opens is taken to open again, and each of its sheets to be
  read, when the sheets are loaded. The log callback has no part in the result and is
  left out.
\<close>

definition load_sheets :: "workbook \<Rightarrow> dataframe option \<times> dataframe option \<times> dataframe option" where
  "load_sheets wb =
     (safe_load_sheet wb ''Mixed Mode Info'' [''MixedModeInfo'', ''Mixed_Mode_Info''],
      safe_load_sheet wb ''5G Info'' [''5GInfo'', ''5G_Info''],
      safe_load_sheet wb ''eUtran Parameters'' [''EUtranParameters'', ''eUtran_Parameters''])"

definition process_template ::
  "workbook option \<Rightarrow> string option
     \<Rightarrow> py_error + (string \<times> (string \<times> nat) list \<times> warning list)" where
  "process_template excel template =
     (case excel of
        None \<Rightarrow> Inl CannotOpenExcel
      | Some wb \<Rightarrow>
          (case load_sheets wb of
             (mixed_mode_df, five_g_df, eutran_df) \<Rightarrow>
               (case template of
                  None \<Rightarrow> Inl CannotReadTemplate
                | Some template_content \<Rightarrow>
                    (case extract_primary_node mixed_mode_df [] of
                       Inl e \<Rightarrow> Inl e
                     | Inr r \<Rightarrow>
                         (case extract_dss_cells five_g_df eutran_df r [] of
                            (r', warnings) \<Rightarrow>
                              (case fill_template r' template_content of
                                 (filled_content, replacement_count) \<Rightarrow>
                                   Inr (filled_content, replacement_count, warnings)))))))"

section \<open>The order of a sorted column\<close>

text \<open>
  The order that \<open>sort_values\<close> sorts cells into: a missing value comes last, strings
  are in lexicographic order, numbers in numeric order.
\<close>

fun cell_le :: "cell \<Rightarrow> cell \<Rightarrow> bool" where
  "cell_le a NaN = True"
| "cell_le NaN b = False"
| "cell_le (StrV s) (StrV t) = (s \<le> t)"
| "cell_le (StrV s) b = False"
| "cell_le a (StrV t) = False"
| "cell_le a b = (num_key a \<le> num_key b)"

section \<open>The order of substitution\<close>

text \<open>
  The entries that the filler substitutes before the entry of a key, and those that it
  substitutes after it.
\<close>

definition substituted_before :: "string \<Rightarrow> replacements \<Rightarrow> replacements" where
  "substituted_before key r = takeWhile (\<lambda>x. fst x \<noteq> key) (sorted_replacements r)"

definition substituted_after :: "string \<Rightarrow> replacements \<Rightarrow> replacements" where
  "substituted_after key r = tl (dropWhile (\<lambda>x. fst x \<noteq> key) (sorted_replacements r))"


section \<open>Example tables\<close>

text \<open>A row given by the cells of some columns; its other cells are missing.\<close>

definition mk_row :: "(string \<times> cell) list \<Rightarrow> row" where
  "mk_row cells c = (case map_of cells c of Some v \<Rightarrow> v | None \<Rightarrow> NaN)"

definition two_headers :: dataframe where
  "two_headers = \<lparr>columns = [''eNodeB Name'', ''ENODEBNAME''],
     rows = [mk_row [(''eNodeB Name'', StrV ''SITE1''), (''ENODEBNAME'', StrV ''SITE2'')]]\<rparr>"

definition mixed_mode_example :: dataframe where
  "mixed_mode_example =
     \<lparr>columns = [''Cabinet Controlling DUL'', ''e_nodeb_name'', ''eNBId'', ''gNodeB Name'', ''gNBId''],
      rows = [mk_row [(''Cabinet Controlling DUL'', BoolV False), (''e_nodeb_name'', StrV ''SITE0''),
                      (''eNBId'', IntV 7), (''gNodeB Name'', StrV ''GSITE0'')],
              mk_row [(''Cabinet Controlling DUL'', BoolV True), (''e_nodeb_name'', StrV ''SITE1''),
                      (''eNBId'', FloatV 100 ''100.0''), (''gNodeB Name'', StrV ''GSITE1''),
                      (''gNBId'', FloatV 200 ''200.0'')]]\<rparr>"

definition two_keys :: replacements where
  "two_keys = [(''xxAxx'', ''1''), (''xxABxx'', ''22'')]"


definition longer_key :: replacements where
  "longer_key = [(''xxAxx'', ''1''), (''xxABxx'', ''2''), (''xxABxx_1'', ''3'')]"

definition prefix_keys :: replacements where
  "prefix_keys = [(''xxA'', ''0''), (''xxAxx'', ''1''), (''Bxx'', ''9''), (''xxABxx'', ''22'')]"

text \<open>A primary node whose legacy node identifier is not a number, and one without the column.\<close>

definition enb_id_not_numeric :: dataframe where
  "enb_id_not_numeric =
     \<lparr>columns = [''eNodeB Name'', ''eNBId''],
      rows = [mk_row [(''eNodeB Name'', StrV ''SITE1''), (''eNBId'', StrV ''abc'')]]\<rparr>"

definition enb_id_column_missing :: dataframe where
  "enb_id_column_missing =
     \<lparr>columns = [''eNodeB Name''], rows = [mk_row [(''eNodeB Name'', StrV ''SITE1'')]]\<rparr>"

text \<open>
  Sheets \<open>5G Info\<close>: five cells of the node \<open>GSITE1\<close> out of order, with a cell marked
  \<open>NO\<close> and a cell of another node; three cells whose cross-reference has no band; two
  cells only.
\<close>

definition nr_cell :: "string \<Rightarrow> string \<Rightarrow> string \<Rightarrow> int \<Rightarrow> row" where
  "nr_cell gnb dss nr_cell_du local_id =
     mk_row [(''gNB Name'', StrV gnb), (''DSS'', StrV dss), (''NRCellDU'', StrV nr_cell_du),
             (''cellLocalId'', IntV local_id), (''NRSectorCarrier'', StrV (''S'' @ show_int local_id))]"

definition five_g_columns :: "string list" where
  "five_g_columns = [''gNB Name'', ''DSS'', ''NRCellDU'', ''cellLocalId'', ''NRSectorCarrier'']"

definition five_g_example :: dataframe where
  "five_g_example =
     \<lparr>columns = five_g_columns,
      rows = [nr_cell ''GSITE1'' ''SITE1_66B_1'' ''SITE1_N066B_1'' 2,
              nr_cell ''GSITE1'' ''NO'' ''SITE1_N066A_0'' 9,
              nr_cell ''GSITE1'' ''SITE1_66A_1'' ''SITE1_N066A_1'' 1,
              nr_cell ''GSITE2'' ''SITE2_66A_1'' ''SITE2_N066A_1'' 7,
              nr_cell ''GSITE1'' ''SITE1_66B_2'' ''SITE1_N066B_2'' 5,
              nr_cell ''GSITE1'' ''SITE1_66A_2'' ''SITE1_N066A_2'' 4,
              nr_cell ''GSITE1'' ''SITE1_66C_1'' ''SITE1_N066C_1'' 3]\<rparr>"

definition five_g_no_band :: dataframe where
  "five_g_no_band =
     \<lparr>columns = five_g_columns,
      rows = [nr_cell ''GSITE1'' ''SITE1X'' ''SITE1_N066A_1'' 1,
              nr_cell ''GSITE1'' ''SITE1Y'' ''SITE1_N066B_1'' 2,
              nr_cell ''GSITE1'' ''SITE1Z'' ''SITE1_N066C_1'' 3]\<rparr>"

definition five_g_two_cells :: dataframe where
  "five_g_two_cells =
     \<lparr>columns = five_g_columns,
      rows = [nr_cell ''GSITE1'' ''SITE1_66A_1'' ''SITE1_N066A_1'' 1,
              nr_cell ''GSITE1'' ''SITE1_66B_1'' ''SITE1_N066B_1'' 2]\<rparr>"

text \<open>
  Sheets \<open>eUtran Parameters\<close>: with the three legacy cells, without the cell of the role
  beta, and without the cell of the role alpha.
\<close>

definition lte_cell :: "string \<Rightarrow> int \<Rightarrow> int \<Rightarrow> row" where
  "lte_cell name cell_id sector_id =
     mk_row [(''EutranCellFDDId'', StrV name), (''cellId'', IntV cell_id), (''sectorId'', IntV sector_id)]"

definition eutran_columns :: "string list" where
  "eutran_columns = [''EutranCellFDDId'', ''cellId'', ''sectorId'']"

definition eutran_example :: dataframe where
  "eutran_example =
     \<lparr>columns = eutran_columns,
      rows = [lte_cell ''SITE1_66A_1'' 11 1, lte_cell ''SITE1_66A_2'' 12 2,
              lte_cell ''SITE1_66B_1'' 13 3]\<rparr>"

definition eutran_no_beta :: dataframe where
  "eutran_no_beta =
     \<lparr>columns = eutran_columns,
      rows = [lte_cell ''SITE1_66A_1'' 11 1, lte_cell ''SITE1_66B_1'' 13 3]\<rparr>"

definition eutran_no_alpha :: dataframe where
  "eutran_no_alpha =
     \<lparr>columns = eutran_columns,
      rows = [lte_cell ''SITE1_66A_2'' 12 2, lte_cell ''SITE1_66B_1'' 13 3]\<rparr>"

text \<open>The placeholder map after the primary node \<open>SITE1\<close> with the next-gen node \<open>GSITE1\<close>.\<close>

definition primary_example :: replacements where
  "primary_example =
     [(''xxMMBB_Primary_Node_Namexx'', ''SITE1''), (''xxLTE_Site_IDxx'', ''SITE1''),
      (''xxLTE_eNBIDxx'', ''100''), (''xx5G_NR_Node_Namexx'', ''GSITE1''), (''xx5G_NR_gNBIDxx'', ''200'')]"

text \<open>Workbooks made of the sheets above.\<close>

definition workbook_no_beta :: workbook where
  "workbook_no_beta =
     [(''Mixed Mode Info'', mixed_mode_example), (''5G Info'', five_g_example),
      (''eUtran Parameters'', eutran_no_beta)]"

definition workbook_no_band :: workbook where
  "workbook_no_band =
     [(''Mixed Mode Info'', mixed_mode_example), (''5G Info'', five_g_no_band),
      (''eUtran Parameters'', eutran_example)]"

definition workbook_two_cells :: workbook where
  "workbook_two_cells =
     [(''mixed mode info '', mixed_mode_example), (''5G_Info'', five_g_two_cells)]"

definition workbook_bad_id :: workbook where
  "workbook_bad_id = [(''Mixed Mode Info'', enb_id_not_numeric)]"

definition workbook_no_id_column :: workbook where
  "workbook_no_id_column = [(''Mixed Mode Info'', enb_id_column_missing)]"



section \<open>The character classes, by code point\<close>

text \<open>
  The three character functions of the model, checked on all 256 characters against
  the code points of their Python counterparts.
\<close>

lemma py_lower_char_code_points:
  "\<forall>c. (of_char (py_lower_char c) :: nat) =
     (if (65 \<le> (of_char c :: nat) \<and> (of_char c :: nat) \<le> 90)
         \<or> (192 \<le> (of_char c :: nat) \<and> (of_char c :: nat) \<le> 222 \<and> (of_char c :: nat) \<noteq> 215)
      then of_char c + 32 else of_char c)"
  by code_simp

lemma py_isspace_code_points:
  "\<forall>c. py_isspace c = ((of_char c :: nat) \<in> {9, 10, 11, 12, 13, 28, 29, 30, 31, 32, 133, 160})"
  by code_simp

lemma is_digit_code_points:
  "\<forall>c. is_digit c = (48 \<le> (of_char c :: nat) \<and> (of_char c :: nat) \<le> 57)"
  by code_simp

section \<open>Properties of the Column Resolver and of the Safe Cell Reader\<close>

lemma map_of_dict_set: "map_of (dict_set d k v) k' = (if k' = k then Some v else map_of d k')"
  by (induction d) auto

lemma map_of_columns_fold:
  "map_of (foldl (\<lambda>d col. dict_set d (normalize_name col) col) d0 cols) k =
     (case filter (\<lambda>col. normalize_name col = k) cols of
        [] \<Rightarrow> map_of d0 k
      | x # xs \<Rightarrow> Some (last (x # xs)))"
proof (induction cols arbitrary: d0)
  case Nil
  then show ?case by simp
next
  case (Cons c cols)
  show ?case
  proof (cases "normalize_name c = k")
    case True
    then show ?thesis
      by (simp add: Cons.IH map_of_dict_set split: list.splits)
  next
    case False
    then show ?thesis
      by (simp add: Cons.IH map_of_dict_set split: list.splits)
  qed
qed

lemma map_of_df_columns_lower:
  "map_of (df_columns_lower cols) k =
     (case filter (\<lambda>col. normalize_name col = k) cols of
        [] \<Rightarrow> None
      | x # xs \<Rightarrow> Some (last (x # xs)))"
  by (simp add: df_columns_lower_def map_of_columns_fold split: list.splits)

lemma find_column_loop_eq:
  "find_column_loop (df_columns_lower cols) names =
     (case find (\<lambda>name. normalize_name name \<in> normalize_name ` set cols) names of
        None \<Rightarrow> None
      | Some name \<Rightarrow> Some (last (filter (\<lambda>col. normalize_name col = normalize_name name) cols)))"
proof (induction names)
  case Nil
  then show ?case by simp
next
  case (Cons n names)
  show ?case
  proof (cases "filter (\<lambda>col. normalize_name col = normalize_name n) cols")
    case Nil
    then have "normalize_name n \<notin> normalize_name ` set cols"
      by (force simp: filter_empty_conv)
    with Nil Cons show ?thesis
      by (simp add: dict_has_def dict_get_def map_of_df_columns_lower)
  next
    case (Cons x xs)
    then have "x \<in> set (filter (\<lambda>col. normalize_name col = normalize_name n) cols)"
      by simp
    then have "normalize_name n \<in> normalize_name ` set cols"
      by simp (metis imageI)
    with Cons show ?thesis
      by (simp add: dict_has_def dict_get_def map_of_df_columns_lower)
  qed
qed

lemma normalize_name_headers:
  "normalize_name ''eNodeB Name'' = ''enodebname''"
  "normalize_name ''ENODEBNAME'' = ''enodebname''"
  "normalize_name ''e_nodeb_name'' = ''enodebname''"
  "normalize_name ''  eNodeB   Name'' = ''enodebname''"
  by code_simp+

text \<open>
  C7, as amended. \<open>find_column\<close> returns nothing for an absent table and for an empty
  one. Otherwise it takes the first candidate, in the caller's order, whose normal form
  (lower case, surrounding white space trimmed, every space and underscore deleted) is
  the normal form of some column, and returns the last column of the table with that
  normal form; it returns nothing when no candidate has one. Each of the headers
  \<open>ENODEBNAME\<close>, \<open>e_nodeb_name\<close> and \<open>  eNodeB   Name\<close>, as the only column of a table
  with a row, is what the candidate \<open>eNodeB Name\<close> resolves to.
\<close>

theorem find_column_last_of_first_candidate:
  "find_column None names = None
   \<and> (df_empty d \<longrightarrow> find_column (Some d) names = None)
   \<and> (\<not> df_empty d \<longrightarrow>
        find_column (Some d) names =
          (case find (\<lambda>name. normalize_name name \<in> normalize_name ` set (columns d)) names of
             None \<Rightarrow> None
           | Some name \<Rightarrow>
               Some (last (filter (\<lambda>col. normalize_name col = normalize_name name) (columns d)))))
   \<and> (\<forall>h \<in> set [''ENODEBNAME'', ''e_nodeb_name'', ''  eNodeB   Name''].
        \<forall>rs. rs \<noteq> [] \<longrightarrow>
          find_column (Some \<lparr>columns = [h], rows = rs\<rparr>) [''eNodeB Name''] = Some h)"
proof -
  have general: "\<not> df_empty d \<Longrightarrow>
      find_column (Some d) names =
        (case find (\<lambda>name. normalize_name name \<in> normalize_name ` set (columns d)) names of
           None \<Rightarrow> None
         | Some name \<Rightarrow>
             Some (last (filter (\<lambda>col. normalize_name col = normalize_name name) (columns d))))"
    for d names
    by (simp add: find_column_def find_column_loop_eq)
  have headers: "find_column (Some \<lparr>columns = [h], rows = rs\<rparr>) [''eNodeB Name''] = Some h"
    if "h \<in> set [''ENODEBNAME'', ''e_nodeb_name'', ''  eNodeB   Name'']" and "rs \<noteq> []" for h rs
  proof -
    from that(1) have "normalize_name h = ''enodebname''"
      by (auto simp: normalize_name_headers)
    moreover from that(2) have "\<not> df_empty \<lparr>columns = [h], rows = rs\<rparr>"
      by (simp add: df_empty_def)
    ultimately show ?thesis
      by (simp add: general normalize_name_headers)
  qed
  show ?thesis
    using general headers by (simp add: find_column_def)
qed

theorem find_column_last_of_first_candidate_witness:
  "\<not> df_empty mixed_mode_example
   \<and> find_column (Some mixed_mode_example) [''eNodeB Name'', ''eNodeBName''] = Some ''e_nodeb_name''
   \<and> find_column (Some \<lparr>columns = [''  eNodeB   Name''], rows = [mk_row []]\<rparr>) [''eNodeB Name'']
       = Some ''  eNodeB   Name''"
proof -
  have ne: "\<not> df_empty mixed_mode_example"
    by (simp add: df_empty_def mixed_mode_example_def)
  have ev: "(case find (\<lambda>name. normalize_name name \<in> normalize_name ` set (columns mixed_mode_example))
                [''eNodeB Name'', ''eNodeBName''] of
               None \<Rightarrow> None
             | Some name \<Rightarrow>
                 Some (last (filter (\<lambda>col. normalize_name col = normalize_name name)
                               (columns mixed_mode_example)))) = Some ''e_nodeb_name''"
    by code_simp
  from find_column_last_of_first_candidate [of "[''eNodeB Name'', ''eNodeBName'']" mixed_mode_example]
    ne ev
  have first: "find_column (Some mixed_mode_example) [''eNodeB Name'', ''eNodeBName''] = Some ''e_nodeb_name''"
    by simp
  from find_column_last_of_first_candidate [of "[]" mixed_mode_example]
  have "find_column (Some \<lparr>columns = [''  eNodeB   Name''], rows = [mk_row []]\<rparr>) [''eNodeB Name'']
       = Some ''  eNodeB   Name''"
    by simp
  with ne first show ?thesis by simp
qed

text \<open>
  The claim as stated fails: of two columns with the candidate's normal form,
  \<open>find_column\<close> returns the second, not the first.
\<close>

theorem find_column_first_column_counterexample:
  "columns two_headers = [''eNodeB Name'', ''ENODEBNAME'']
   \<and> normalize_name (columns two_headers ! 0) = normalize_name ''eNodeB Name''
   \<and> find_column (Some two_headers) [''eNodeB Name''] = Some ''ENODEBNAME''
   \<and> find_column (Some two_headers) [''eNodeB Name''] \<noteq> Some (columns two_headers ! 0)"
  by code_simp

text \<open>
  C8. \<open>safe_get_value\<close> returns the default when the table is absent, the column name
  is absent or not a column of the table, the row index is out of the table's range, or
  the cell is missing, and the cell itself otherwise (a negative index in range counts
  from the last row, as \<open>iloc\<close> does). It has a value on every input: the exception of
  an index out of range is caught and gives the default.
\<close>

theorem safe_get_value_default_or_cell:
  "safe_get_value df column_name row_idx dflt =
     (case (df, column_name) of
        (Some d, Some c) \<Rightarrow>
          if c \<in> set (columns d) \<and> - int (length (rows d)) \<le> row_idx
             \<and> row_idx < int (length (rows d))
          then (let v = (rows d ! nat (if row_idx < 0 then int (length (rows d)) + row_idx
                                       else row_idx)) c
                in if v = NaN then dflt else v)
          else dflt
      | _ \<Rightarrow> dflt)"
  by (auto simp: safe_get_value_def safe_get_value_try_def iloc_def py_isna_def Let_def
      split: option.splits sum.splits)

theorem safe_get_value_default_or_cell_witness:
  "safe_get_value (Some mixed_mode_example) (Some ''eNBId'') 1 (StrV []) = FloatV 100 ''100.0''
   \<and> safe_get_value (Some mixed_mode_example) (Some ''gNBId'') 0 (StrV []) = StrV []
   \<and> safe_get_value (Some mixed_mode_example) (Some ''eNBId'') 2 (StrV []) = StrV []
   \<and> safe_get_value (Some mixed_mode_example) (Some ''eNBId'') (- 3) (StrV []) = StrV []
   \<and> safe_get_value (Some mixed_mode_example) (Some ''cellId'') 0 (StrV []) = StrV []"
  using safe_get_value_default_or_cell [of "Some mixed_mode_example" "Some ''eNBId''" 1 "StrV []"]
    safe_get_value_default_or_cell [of "Some mixed_mode_example" "Some ''gNBId''" 0 "StrV []"]
    safe_get_value_default_or_cell [of "Some mixed_mode_example" "Some ''eNBId''" 2 "StrV []"]
    safe_get_value_default_or_cell [of "Some mixed_mode_example" "Some ''eNBId''" "- 3" "StrV []"]
    safe_get_value_default_or_cell [of "Some mixed_mode_example" "Some ''cellId''" 0 "StrV []"]
  by (simp add: mixed_mode_example_def mk_row_def)

section \<open>Properties of the Template Filler\<close>

lemma py_replace_scan_absent: "\<not> sublist old s \<Longrightarrow> py_replace_scan s old new = s"
proof (induction s old new rule: py_replace_scan.induct)
  case (1 old new)
  then show ?case by simp
next
  case (2 c cs old new)
  from "2.prems" have np: "\<not> prefix old (c # cs)" and ns: "\<not> sublist old cs"
    by (auto simp: sublist_Cons_right)
  with "2.IH"(2) show ?case by simp
qed

lemma py_count_scan_absent: "\<not> sublist old s \<Longrightarrow> py_count_scan s old = 0"
proof (induction s old rule: py_count_scan.induct)
  case (1 old)
  then show ?case by simp
next
  case (2 c cs old)
  from "2.prems" have np: "\<not> prefix old (c # cs)" and ns: "\<not> sublist old cs"
    by (auto simp: sublist_Cons_right)
  with "2.IH"(2) show ?case by simp
qed

lemma py_count_absent: "\<not> sublist old s \<Longrightarrow> py_count s old = 0"
  by (auto simp: py_count_def py_count_scan_absent)

lemma py_count_scan_zero: "py_count_scan s old = 0 \<Longrightarrow> py_replace_scan s old new = s"
  by (induction s old rule: py_count_scan.induct) (auto split: if_splits)

lemma py_count_zero: "py_count s old = 0 \<Longrightarrow> py_replace s old new = s"
  by (auto simp: py_count_def py_replace_def py_count_scan_zero split: if_splits)

text \<open>The text after the loop: every entry is substituted in turn.\<close>

lemma fill_loop_text:
  "fst (fill_loop L (t, c)) = foldl (\<lambda>t x. py_replace t (fst x) (snd x)) t L"
proof (induction L arbitrary: t c)
  case Nil
  then show ?case by simp
next
  case (Cons x L)
  obtain k v where x: "x = (k, v)" by (cases x)
  show ?case
    by (simp add: x Cons.IH Let_def py_count_zero)
qed

lemma fold_replace_absent:
  "\<forall>x \<in> set L. \<not> sublist (fst x) t \<Longrightarrow> foldl (\<lambda>t x. py_replace t (fst x) (snd x)) t L = t"
proof (induction L)
  case Nil
  then show ?case by simp
next
  case (Cons x L)
  then have "py_replace t (fst x) (snd x) = t"
    by (simp add: py_count_absent py_count_zero)
  with Cons show ?case by simp
qed

lemma fill_loop_absent:
  "\<forall>x \<in> set L. \<not> sublist (fst x) t \<Longrightarrow> fill_loop L (t, c) = (t, c)"
proof (induction L)
  case Nil
  then show ?case by simp
next
  case (Cons x L)
  obtain k v where x: "x = (k, v)" by (cases x)
  with Cons.prems have "py_count t k = 0"
    by (simp add: py_count_absent)
  with Cons x show ?case by simp
qed

lemma set_sorted_replacements: "set (sorted_replacements m) = set m"
  by (simp add: sorted_replacements_def)

lemma replace_scan_here:
  "old \<noteq> [] \<Longrightarrow> py_replace_scan (old @ post) old new = new @ py_replace_scan post old new"
  by (cases old) auto

lemma sorted_sorted_replacements:
  "sorted (map (\<lambda>x. - int (length (fst x))) (sorted_replacements m))"
  by (simp add: sorted_replacements_def)

lemma distinct_sorted_replacements:
  "distinct (map fst m) \<Longrightarrow> distinct (map fst (sorted_replacements m))"
proof -
  have "mset (map fst (sorted_replacements m)) = mset (map fst m)"
    by (simp add: sorted_replacements_def)
  then show "distinct (map fst m) \<Longrightarrow> distinct (map fst (sorted_replacements m))"
    by (metis mset_eq_imp_distinct_iff)
qed

lemma prefix_of_append_short:
  "prefix xs (ys @ zs) \<Longrightarrow> length xs \<le> length ys \<Longrightarrow> prefix xs ys"
proof -
  assume p: "prefix xs (ys @ zs)" and l: "length xs \<le> length ys"
  from p obtain r where "ys @ zs = xs @ r"
    by (auto simp: prefix_def)
  then have "take (length xs) (ys @ zs) = xs"
    by simp
  with l have "take (length xs) ys = xs"
    by simp
  then show "prefix xs ys"
    by (metis take_is_prefix)
qed

lemma replace_scan_append:
  "(\<forall>i<length xs. prefix old (drop i (xs @ ys)) \<longrightarrow> i + length old \<le> length xs) \<Longrightarrow>
     py_replace_scan (xs @ ys) old new = py_replace_scan xs old new @ py_replace_scan ys old new"
proof (induction xs old new rule: py_replace_scan.induct)
  case (1 old new)
  then show ?case by simp
next
  case (2 c cs old new)
  show ?case
  proof (cases "old \<noteq> [] \<and> prefix old ((c # cs) @ ys)")
    case True
    from "2.prems" True have len: "length old \<le> length (c # cs)"
      by force
    with True have pre: "prefix old (c # cs)"
      by (intro prefix_of_append_short [of old "c # cs" ys]) simp_all
    have shift: "\<forall>i<length (drop (length old) (c # cs)).
        prefix old (drop i (drop (length old) (c # cs) @ ys)) \<longrightarrow>
          i + length old \<le> length (drop (length old) (c # cs))"
    proof (intro allI impI)
      fix i
      assume i: "i < length (drop (length old) (c # cs))"
        and p: "prefix old (drop i (drop (length old) (c # cs) @ ys))"
      from len have "drop (length old) (c # cs) @ ys = drop (length old) ((c # cs) @ ys)"
        using drop_append [of "length old" "c # cs" ys] by simp
      with p have "prefix old (drop (i + length old) ((c # cs) @ ys))"
        by (simp add: add.commute)
      moreover from i have "i + length old < length (c # cs)"
        by simp
      ultimately have "i + length old + length old \<le> length (c # cs)"
        using "2.prems" by blast
      then show "i + length old \<le> length (drop (length old) (c # cs))"
        by simp
    qed
    have ih: "py_replace_scan (drop (length old) (c # cs) @ ys) old new
        = py_replace_scan (drop (length old) (c # cs)) old new @ py_replace_scan ys old new"
      using True pre shift by (intro "2.IH"(1)) simp_all
    from len have "drop (length old) ((c # cs) @ ys) = drop (length old) (c # cs) @ ys"
      using drop_append [of "length old" "c # cs" ys] by simp
    with True pre ih show ?thesis
      by simp
  next
    case False
    then have no: "\<not> (old \<noteq> [] \<and> prefix old (c # cs))"
      using prefix_prefix [of old "c # cs" ys] by blast
    have shift: "\<forall>i<length cs. prefix old (drop i (cs @ ys)) \<longrightarrow> i + length old \<le> length cs"
    proof (intro allI impI)
      fix i
      assume i: "i < length cs" and p: "prefix old (drop i (cs @ ys))"
      then have "prefix old (drop (Suc i) ((c # cs) @ ys))" by simp
      moreover from i have "Suc i < length (c # cs)" by simp
      ultimately have "Suc i + length old \<le> length (c # cs)"
        using "2.prems" by blast
      then show "i + length old \<le> length cs" by simp
    qed
    have ih: "py_replace_scan (cs @ ys) old new
        = py_replace_scan cs old new @ py_replace_scan ys old new"
      using no shift by (intro "2.IH"(2)) simp_all
    from False have l: "py_replace_scan ((c # cs) @ ys) old new = c # py_replace_scan (cs @ ys) old new"
      by auto
    from no have r: "py_replace_scan (c # cs) old new = c # py_replace_scan cs old new"
      by auto
    from l r ih show ?thesis
      by simp
  qed
qed

lemma replace_occurrence:
  assumes "old \<noteq> []"
    and "\<forall>i<length pre. prefix old (drop i (pre @ old @ post)) \<longrightarrow> i + length old \<le> length pre"
  shows "py_replace (pre @ old @ post) old new
           = py_replace pre old new @ new @ py_replace post old new"
  using assms replace_scan_append [of pre old "old @ post" new]
  by (simp add: py_replace_def replace_scan_here)

lemma split_at_key:
  assumes "distinct (map fst r)" and "(key, b) \<in> set r"
  shows "sorted_replacements r = substituted_before key r @ (key, b) # substituted_after key r"
proof -
  let ?P = "\<lambda>x. fst x \<noteq> key"
  let ?L = "sorted_replacements r"
  from assms(1) have d: "distinct (map fst ?L)"
    by (rule distinct_sorted_replacements)
  from assms(2) have m: "(key, b) \<in> set ?L"
    by (simp add: set_sorted_replacements)
  from m have ne: "dropWhile ?P ?L \<noteq> []"
    by (force simp: dropWhile_eq_Nil_conv)
  then have hd: "fst (hd (dropWhile ?P ?L)) = key"
    using hd_dropWhile [of ?P ?L] by simp
  from ne have "hd (dropWhile ?P ?L) \<in> set ?L"
    by (metis hd_in_set set_dropWhileD)
  with hd d m have "hd (dropWhile ?P ?L) = (key, b)"
    by (metis eq_key_imp_eq_value prod.collapse)
  with ne have "dropWhile ?P ?L = (key, b) # tl (dropWhile ?P ?L)"
    by (metis list.collapse)
  then have "takeWhile ?P ?L @ (key, b) # tl (dropWhile ?P ?L) = ?L"
    by (metis takeWhile_dropWhile_id)
  then show ?thesis
    by (simp add: substituted_before_def substituted_after_def)
qed

lemma substituted_before_longer:
  assumes "distinct (map fst r)" and "(key, b) \<in> set r" and "x \<in> set (substituted_before key r)"
  shows "length key \<le> length (fst x)"
proof -
  have "sorted (map (\<lambda>x. - int (length (fst x)))
                 (substituted_before key r @ (key, b) # substituted_after key r))"
    using sorted_sorted_replacements [of r] split_at_key [OF assms(1,2)] by simp
  with assms(3) have "- int (length (fst x)) \<le> - int (length key)"
    by (simp add: sorted_append)
  then show ?thesis by simp
qed

lemma substituted_after_shorter:
  assumes "distinct (map fst r)" and "(key, b) \<in> set r" and "(k, a) \<in> set r"
    and "length k < length key"
  shows "(k, a) \<in> set (substituted_after key r)"
proof -
  from assms(3) have "(k, a) \<in> set (sorted_replacements r)"
    by (simp add: set_sorted_replacements)
  then have "(k, a) \<in> set (substituted_before key r @ (key, b) # substituted_after key r)"
    using split_at_key [OF assms(1,2)] by simp
  moreover have "(k, a) \<notin> set (substituted_before key r)"
    using substituted_before_longer [OF assms(1,2), of "(k, a)"] assms(4) by auto
  moreover have "(k, a) \<noteq> (key, b)"
    using assms(4) by auto
  ultimately show ?thesis by auto
qed

lemma fill_template_split:
  assumes "distinct (map fst r)" and "(key, b) \<in> set r"
  shows "fst (fill_template r t)
           = fst (fill_loop (substituted_after key r)
                   (py_replace (fst (fill_loop (substituted_before key r) (t, []))) key b, c))"
proof -
  let ?step = "\<lambda>t x. py_replace t (fst x) (snd x)"
  have "fst (fill_template r t) = foldl ?step t (sorted_replacements r)"
    by (simp add: fill_template_def fill_loop_text)
  also have "\<dots> = foldl ?step t (substituted_before key r @ (key, b) # substituted_after key r)"
    using split_at_key [OF assms] by simp
  also have "\<dots> = foldl ?step (py_replace (foldl ?step t (substituted_before key r)) key b)
                      (substituted_after key r)"
    by simp
  finally show ?thesis
    by (simp add: fill_loop_text)
qed

text \<open>
  C5, as amended. Let the keys of the map be distinct, as the keys of a \<open>dict\<close> are, and
  let the map hold \<open>xxAxx\<close> with the value \<open>a\<close> and \<open>xxABxx\<close> with the value \<open>b\<close>. The
  filler substitutes the entries before \<open>xxABxx\<close>, then \<open>xxABxx\<close>, then the entries after
  it; every key substituted before \<open>xxABxx\<close> is at least as long as it, and \<open>xxAxx\<close> is
  substituted after it. So, for every template \<open>T\<close>, the output is what the later entries
  make of the text in which \<open>xxABxx\<close> has been replaced by \<open>b\<close>: the text that the
  earlier entries leave, which is \<open>T\<close> itself when none of their keys occurs in \<open>T\<close>. With
  these two keys only, the output is \<open>T\<close> with \<open>xxABxx\<close> replaced by \<open>b\<close> and then
  \<open>xxAxx\<close> replaced by \<open>a\<close>. In that replacement an occurrence of \<open>xxABxx\<close>, at
  \<open>T = pre @ xxABxx @ post\<close>, is replaced by \<open>b\<close> whenever no occurrence of \<open>xxABxx\<close>
  that starts in \<open>pre\<close> runs into it.
\<close>

theorem fill_template_longest_key_first:
  assumes "distinct (map fst m)"
    and "(''xxAxx'', a) \<in> set m" and "(''xxABxx'', b) \<in> set m"
  shows "sorted_replacements m
           = substituted_before ''xxABxx'' m @ (''xxABxx'', b) # substituted_after ''xxABxx'' m
         \<and> (\<forall>x \<in> set (substituted_before ''xxABxx'' m). 6 \<le> length (fst x))
         \<and> (''xxAxx'', a) \<in> set (substituted_after ''xxABxx'' m)
         \<and> fst (fill_template m T)
             = fst (fill_loop (substituted_after ''xxABxx'' m)
                     (py_replace (fst (fill_loop (substituted_before ''xxABxx'' m) (T, [])))
                        ''xxABxx'' b, c))
         \<and> ((\<forall>x \<in> set (substituted_before ''xxABxx'' m). \<not> sublist (fst x) T) \<longrightarrow>
              fst (fill_template m T)
                = fst (fill_loop (substituted_after ''xxABxx'' m) (py_replace T ''xxABxx'' b, c)))
         \<and> (length m = 2 \<longrightarrow>
              fst (fill_template m T) = py_replace (py_replace T ''xxABxx'' b) ''xxAxx'' a)
         \<and> (\<forall>pre post. T = pre @ ''xxABxx'' @ post
               \<and> (\<forall>i<length pre. prefix ''xxABxx'' (drop i T) \<longrightarrow> i + 6 \<le> length pre) \<longrightarrow>
              py_replace T ''xxABxx'' b
                = py_replace pre ''xxABxx'' b @ b @ py_replace post ''xxABxx'' b)"
proof -
  let ?B = "substituted_before ''xxABxx'' m"
  let ?A = "substituted_after ''xxABxx'' m"
  have split: "sorted_replacements m = ?B @ (''xxABxx'', b) # ?A"
    using assms(1,3) by (rule split_at_key)
  have longer: "\<forall>x \<in> set ?B. 6 \<le> length (fst x)"
  proof
    fix x
    assume "x \<in> set ?B"
    then have "length ''xxABxx'' \<le> length (fst x)"
      using assms(1,3) by (intro substituted_before_longer [where b = b])
    then show "6 \<le> length (fst x)"
      by simp
  qed
  have later: "(''xxAxx'', a) \<in> set ?A"
    using assms by (intro substituted_after_shorter [where b = b]) simp_all
  have out: "fst (fill_template m T)
      = fst (fill_loop ?A (py_replace (fst (fill_loop ?B (T, []))) ''xxABxx'' b, c))"
    using assms(1,3) by (rule fill_template_split)
  have direct: "(\<forall>x \<in> set ?B. \<not> sublist (fst x) T) \<longrightarrow>
      fst (fill_template m T) = fst (fill_loop ?A (py_replace T ''xxABxx'' b, c))"
    using out by (simp add: fill_loop_absent)
  have two: "length m = 2 \<longrightarrow>
      fst (fill_template m T) = py_replace (py_replace T ''xxABxx'' b) ''xxAxx'' a"
  proof
    assume "length m = 2"
    then have "length (sorted_replacements m) = 2"
      by (simp add: sorted_replacements_def)
    moreover have "length (sorted_replacements m) = length (?B @ (''xxABxx'', b) # ?A)"
      by (rule arg_cong [OF split])
    ultimately have len: "length ?B + length ?A = 1"
      by simp
    from later have ne: "?A \<noteq> []" by auto
    from len ne have b: "?B = []"
      by (cases ?A) simp_all
    from len ne have a: "length ?A = 1"
      by (cases ?A) simp_all
    from a later have a': "?A = [(''xxAxx'', a)]"
      by (cases ?A) auto
    from out have "fst (fill_template m T)
        = fst (fill_loop [(''xxAxx'', a)] (py_replace (fst (fill_loop [] (T, []))) ''xxABxx'' b, c))"
      by (simp only: b a')
    then show "fst (fill_template m T) = py_replace (py_replace T ''xxABxx'' b) ''xxAxx'' a"
      by (simp only: fill_loop_text foldl.simps fst_conv snd_conv)
  qed
  have occ: "\<forall>pre post. T = pre @ ''xxABxx'' @ post
               \<and> (\<forall>i<length pre. prefix ''xxABxx'' (drop i T) \<longrightarrow> i + 6 \<le> length pre) \<longrightarrow>
              py_replace T ''xxABxx'' b
                = py_replace pre ''xxABxx'' b @ b @ py_replace post ''xxABxx'' b"
  proof (intro allI impI, elim conjE)
    fix pre post
    assume T: "T = pre @ ''xxABxx'' @ post"
      and free: "\<forall>i<length pre. prefix ''xxABxx'' (drop i T) \<longrightarrow> i + 6 \<le> length pre"
    have six: "length ''xxABxx'' = 6"
      by simp
    from free have "\<forall>i<length pre. prefix ''xxABxx'' (drop i (pre @ ''xxABxx'' @ post))
        \<longrightarrow> i + length ''xxABxx'' \<le> length pre"
      by (simp only: T six)
    then have "py_replace (pre @ ''xxABxx'' @ post) ''xxABxx'' b
        = py_replace pre ''xxABxx'' b @ b @ py_replace post ''xxABxx'' b"
      by (intro replace_occurrence) simp_all
    with T show "py_replace T ''xxABxx'' b
        = py_replace pre ''xxABxx'' b @ b @ py_replace post ''xxABxx'' b"
      by simp
  qed
  show ?thesis
    by (intro conjI) (rule split longer later out direct two occ)+
qed

theorem fill_template_longest_key_first_witness:
  "substituted_before ''xxABxx'' longer_key = [(''xxABxx_1'', ''3'')]
   \<and> fst (fill_template longer_key ''box xxAxx and xxABxx.'') = ''box 1 and 2.''
   \<and> py_replace ''box xxAxx and xxABxx.'' ''xxABxx'' ''2'' = ''box xxAxx and 2.''
   \<and> fst (fill_template two_keys ''box xxAxx and xxABxx.'') = ''box 1 and 22.''
   \<and> fst (fill_template prefix_keys ''box xxAxx and xxABxx.'') = ''box 1 and 22.''"
proof -
  let ?T = "''box xxAxx and xxABxx.''"
  have h1: "distinct (map fst longer_key)" by (simp add: longer_key_def)
  have h2: "(''xxAxx'', ''1'') \<in> set longer_key" by (simp add: longer_key_def)
  have h3: "(''xxABxx'', ''2'') \<in> set longer_key" by (simp add: longer_key_def)
  note inst = fill_template_longest_key_first [OF h1 h2 h3, of ?T "[]"]
  have before: "substituted_before ''xxABxx'' longer_key = [(''xxABxx_1'', ''3'')]"
    by code_simp
  have absent: "\<forall>x \<in> set (substituted_before ''xxABxx'' longer_key). \<not> sublist (fst x) ?T"
    by code_simp
  have rest: "fst (fill_loop (substituted_after ''xxABxx'' longer_key)
                     (py_replace ?T ''xxABxx'' ''2'', [])) = ''box 1 and 2.''"
    by code_simp
  note direct = inst [THEN conjunct2, THEN conjunct2, THEN conjunct2, THEN conjunct2,
      THEN conjunct1, THEN mp, OF absent]
  from direct rest have filled: "fst (fill_template longer_key ?T) = ''box 1 and 2.''"
    by simp
  have split: "?T = ''box xxAxx and '' @ ''xxABxx'' @ ''.''"
    by simp
  have free: "\<forall>i<length ''box xxAxx and ''. prefix ''xxABxx'' (drop i ?T)
                \<longrightarrow> i + 6 \<le> length ''box xxAxx and ''"
    by (simp add: All_less_Suc eval_nat_numeral)
  have parts: "py_replace ''box xxAxx and '' ''xxABxx'' ''2'' @ ''2'' @ py_replace ''.'' ''xxABxx'' ''2''
                = ''box xxAxx and 2.''"
    by code_simp
  note occ = inst [THEN conjunct2, THEN conjunct2, THEN conjunct2, THEN conjunct2,
      THEN conjunct2, THEN conjunct2, THEN spec, THEN spec, THEN mp, OF conjI, OF split free]
  from occ have "py_replace ?T ''xxABxx'' ''2''
      = py_replace ''box xxAxx and '' ''xxABxx'' ''2'' @ ''2'' @ py_replace ''.'' ''xxABxx'' ''2''"
    .
  with parts have occurrence: "py_replace ?T ''xxABxx'' ''2'' = ''box xxAxx and 2.''"
    by simp
  have k1: "distinct (map fst two_keys)" by (simp add: two_keys_def)
  have k2: "(''xxAxx'', ''1'') \<in> set two_keys" by (simp add: two_keys_def)
  have k3: "(''xxABxx'', ''22'') \<in> set two_keys" by (simp add: two_keys_def)
  have two: "length two_keys = 2" by (simp add: two_keys_def)
  have nested: "py_replace (py_replace ?T ''xxABxx'' ''22'') ''xxAxx'' ''1'' = ''box 1 and 22.''"
    by code_simp
  note both = fill_template_longest_key_first [OF k1 k2 k3, of ?T "[]", THEN conjunct2,
      THEN conjunct2, THEN conjunct2, THEN conjunct2, THEN conjunct2, THEN conjunct1, THEN mp,
      OF two]
  from both nested have pair: "fst (fill_template two_keys ?T) = ''box 1 and 22.''"
    by simp
  have p1: "distinct (map fst prefix_keys)" by (simp add: prefix_keys_def)
  have p2: "(''xxAxx'', ''1'') \<in> set prefix_keys" by (simp add: prefix_keys_def)
  have p3: "(''xxABxx'', ''22'') \<in> set prefix_keys" by (simp add: prefix_keys_def)
  have none: "\<forall>x \<in> set (substituted_before ''xxABxx'' prefix_keys). \<not> sublist (fst x) ?T"
    by code_simp
  have shorter: "fst (fill_loop (substituted_after ''xxABxx'' prefix_keys)
                        (py_replace ?T ''xxABxx'' ''22'', [])) = ''box 1 and 22.''"
    by code_simp
  note inner = fill_template_longest_key_first [OF p1 p2 p3, of ?T "[]", THEN conjunct2,
      THEN conjunct2, THEN conjunct2, THEN conjunct2, THEN conjunct1, THEN mp, OF none]
  from inner shorter have parts_of: "fst (fill_template prefix_keys ?T) = ''box 1 and 22.''"
    by simp
  from before filled occurrence pair parts_of show ?thesis
    by simp
qed

text \<open>
  The claim as stated fails in two ways. A longer key that covers the occurrence is
  substituted first, and the value of \<open>xxABxx\<close> is nowhere in the output. And of two
  occurrences of \<open>xxABxx\<close> that overlap, \<open>replace\<close> takes the left one only: the right
  one, at the index 4 of \<open>xxABxxABxx\<close>, leaves the residue \<open>ABxx\<close>.
\<close>

theorem fill_template_prefix_counterexample:
  "dict_get longer_key ''xxAxx'' = Some ''1'' \<and> dict_get longer_key ''xxABxx'' = Some ''2''
   \<and> sublist ''xxABxx'' ''xxABxx_1''
   \<and> fst (fill_template longer_key ''xxABxx_1'') = ''3''
   \<and> \<not> sublist ''2'' (fst (fill_template longer_key ''xxABxx_1''))
   \<and> dict_get two_keys ''xxAxx'' = Some ''1'' \<and> dict_get two_keys ''xxABxx'' = Some ''22''
   \<and> drop 4 ''xxABxxABxx'' = ''xxABxx''
   \<and> fst (fill_template two_keys ''xxABxxABxx'') = ''22ABxx''"
  by code_simp









section \<open>Properties of the Node/Cell Extractor\<close>

lemma find_column_Some_normal:
  assumes "find_column df names = Some c"
  shows "\<exists>name \<in> set names. normalize_name c = normalize_name name"
proof -
  from assms obtain d where d: "df = Some d" "\<not> df_empty d"
    and loop: "find_column_loop (df_columns_lower (columns d)) names = Some c"
    by (auto simp: find_column_def split: option.splits if_splits)
  from loop obtain name where f: "find (\<lambda>name. normalize_name name \<in> normalize_name ` set (columns d)) names = Some name"
    and c: "c = last (filter (\<lambda>col. normalize_name col = normalize_name name) (columns d))"
    by (auto simp: find_column_loop_eq split: option.splits)
  from f have mem: "name \<in> set names" and "normalize_name name \<in> normalize_name ` set (columns d)"
    by (auto simp: find_Some_iff)
  then have "filter (\<lambda>col. normalize_name col = normalize_name name) (columns d) \<noteq> []"
    by (auto simp: filter_empty_conv)
  then have "c \<in> set (filter (\<lambda>col. normalize_name col = normalize_name name) (columns d))"
    unfolding c by (rule last_in_set)
  with mem show ?thesis by auto
qed

lemma normalize_name_Nil: "normalize_name [] = []"
  by code_simp

lemma find_column_Some_nonempty:
  "find_column df names = Some c \<Longrightarrow> [] \<notin> set (map normalize_name names) \<Longrightarrow> c \<noteq> []"
  using find_column_Some_normal [of df names c] normalize_name_Nil by force

lemma mset_sort_values: "sort_values rs col = Inr out \<Longrightarrow> mset out = mset rs"
  by (auto simp: sort_values_def Let_def split: if_splits)

lemma cell_le_str: "is_str a \<Longrightarrow> is_str b \<Longrightarrow> cell_le a b = (str_key a \<le> str_key b)"
  by (cases a; cases b) simp_all

lemma cell_le_num: "is_num a \<Longrightarrow> is_num b \<Longrightarrow> cell_le a b = (num_key a \<le> num_key b)"
  by (cases a; cases b) simp_all

lemma sorted_present_str:
  assumes "list_all (\<lambda>r. is_str (r col)) xs"
  shows "sorted_wrt (\<lambda>x y. cell_le (x col) (y col)) (sort_key (\<lambda>r. str_key (r col)) xs)"
proof -
  let ?ys = "sort_key (\<lambda>r. str_key (r col)) xs"
  have "sorted (map (\<lambda>r. str_key (r col)) ?ys)" by simp
  then have "sorted_wrt (\<lambda>x y. str_key (x col) \<le> str_key (y col)) ?ys"
    by (simp add: sorted_map)
  moreover have "\<forall>x \<in> set ?ys. is_str (x col)"
    using assms by (simp add: list_all_iff)
  ultimately show ?thesis
    by (auto elim!: sorted_wrt_mono_rel [rotated] simp: cell_le_str)
qed

lemma sorted_present_num:
  assumes "list_all (\<lambda>r. is_num (r col)) xs"
  shows "sorted_wrt (\<lambda>x y. cell_le (x col) (y col)) (sort_key (\<lambda>r. num_key (r col)) xs)"
proof -
  let ?ys = "sort_key (\<lambda>r. num_key (r col)) xs"
  have "sorted (map (\<lambda>r. num_key (r col)) ?ys)" by simp
  then have "sorted_wrt (\<lambda>x y. num_key (x col) \<le> num_key (y col)) ?ys"
    by (simp add: sorted_map)
  moreover have "\<forall>x \<in> set ?ys. is_num (x col)"
    using assms by (simp add: list_all_iff)
  ultimately show ?thesis
    by (auto elim!: sorted_wrt_mono_rel [rotated] simp: cell_le_num)
qed

lemma sorted_missing:
  "sorted_wrt (\<lambda>x y. cell_le (x col) (y col)) (filter (\<lambda>r. py_isna (r col)) rs)"
  by (induction rs) (auto simp: py_isna_def)

lemma sorted_sort_values:
  assumes "sort_values rs col = Inr out"
  shows "sorted_wrt (\<lambda>x y. cell_le (x col) (y col)) out"
proof -
  let ?present = "filter (\<lambda>r. \<not> py_isna (r col)) rs"
  let ?missing = "filter (\<lambda>r. py_isna (r col)) rs"
  have last: "\<forall>y \<in> set ?missing. cell_le (x col) (y col)" for x :: row
    by (auto simp: py_isna_def)
  from assms consider
      "list_all (\<lambda>r. is_str (r col)) ?present" "out = sort_key (\<lambda>r. str_key (r col)) ?present @ ?missing"
    | "list_all (\<lambda>r. is_num (r col)) ?present" "out = sort_key (\<lambda>r. num_key (r col)) ?present @ ?missing"
    by (auto simp: sort_values_def Let_def split: if_splits)
  then show ?thesis
  proof cases
    case 1
    then show ?thesis
      using sorted_present_str [OF 1(1)] sorted_missing [of col rs] last
      by (simp add: sorted_wrt_append)
  next
    case 2
    then show ?thesis
      using sorted_present_num [OF 2(1)] sorted_missing [of col rs] last
      by (simp add: sorted_wrt_append)
  qed
qed

lemma candidates_nonempty:
  "[] \<notin> set (map normalize_name [''gNB Name'', ''gNodeB Name''])"
  "[] \<notin> set (map normalize_name [''DSS'', ''dss''])"
  "[] \<notin> set (map normalize_name [''NRCellDU'', ''NRCellDu''])"
  "[] \<notin> set (map normalize_name [''EutranCellFDDId'', ''EUtranCellFDDId''])"
  "[] \<notin> set (map normalize_name [''cellId'', ''cellid''])"
  "[] \<notin> set (map normalize_name [''sectorId'', ''sectorid''])"
  by code_simp+

lemma dss_try_resolved:
  assumes "dict_get r ''xx5G_NR_Node_Namexx'' = Some gnb_name"
    and "find_column (Some df) [''gNB Name'', ''gNodeB Name''] = Some gc"
    and "find_column (Some df) [''DSS'', ''dss''] = Some dc"
    and "find_column (Some df) [''NRCellDU'', ''NRCellDu''] = Some nc"
  shows "extract_dss_cells_try df eutran r =
     (case select_dss_cells df gc dc nc gnb_name of
        Inl e \<Rightarrow> (r, Some e)
      | Inr cells \<Rightarrow>
          if 3 \<le> length cells then
            (case (re_search lte_band_at (py_strip (py_str ((cells ! 0) dc))),
                   re_search nr_band_at (py_strip (py_str ((cells ! 0) nc)))) of
               (Some lte_band, Some nr_band) \<Rightarrow>
                 emit_dss_cells eutran (find_column (Some df) [''cellLocalId'', ''celllocalid''])
                   (find_column (Some df) [''NRSectorCarrier'', ''nrsectorcarrier'']) dc nc nr_band
                   (cells ! 0) (cells ! 1) (cells ! 2) r
             | _ \<Rightarrow> (r, None))
          else (r, None))"
proof -
  have "gc \<noteq> []" "dc \<noteq> []" "nc \<noteq> []"
    using assms(2,3,4) candidates_nonempty by (blast dest: find_column_Some_nonempty)+
  then show ?thesis
    using assms by (simp add: extract_dss_cells_try_def Let_def split: sum.splits option.splits)
qed

lemma dss_try_unresolved:
  assumes "find_column (Some df) [''gNB Name'', ''gNodeB Name''] = None
           \<or> find_column (Some df) [''DSS'', ''dss''] = None
           \<or> find_column (Some df) [''NRCellDU'', ''NRCellDu''] = None"
    and "dict_get r ''xx5G_NR_Node_Namexx'' = Some gnb_name"
  shows "extract_dss_cells_try df eutran r = (r, None)"
  using assms by (auto simp: extract_dss_cells_try_def Let_def split: option.splits)

lemma dss_stage_of_try:
  assumes "dict_get r ''xx5G_NR_Node_Namexx'' = Some gnb_name"
  shows "extract_dss_cells (Some df) eutran r ws =
     (case extract_dss_cells_try df eutran r of
        (r', None) \<Rightarrow> (r', ws)
      | (r', Some e) \<Rightarrow> (r', ws @ [Error_extracting_DSS_cells e]))"
  using assms by (simp add: extract_dss_cells_def dict_has_def dict_get_def)

lemma dss_stage_warnings:
  "snd (extract_dss_cells five eutran r ws) = ws
   \<or> (\<exists>e. snd (extract_dss_cells five eutran r ws) = ws @ [Error_extracting_DSS_cells e])"
  by (auto simp: extract_dss_cells_def split: option.splits prod.splits)

lemma process_template_steps:
  assumes "load_sheets wb = (mixed_mode_df, five_g_df, eutran_df)"
    and "extract_primary_node mixed_mode_df [] = Inr r"
    and "extract_dss_cells five_g_df eutran_df r [] = (r', ws)"
  shows "process_template (Some wb) (Some t) =
           Inr (fst (fill_template r' t), snd (fill_template r' t), ws)"
  using assms by (simp add: process_template_def split: prod.splits)


lemma map_of_set_int:
  "k \<noteq> key \<Longrightarrow> map_of (fst (set_int key v r)) k = map_of r k"
  by (simp add: set_int_def map_of_dict_set split: sum.splits)

lemma map_of_set_first_int:
  "k \<noteq> key \<Longrightarrow> map_of (fst (set_first_int key found col r)) k = map_of r k"
  by (simp add: set_first_int_def map_of_set_int split: sum.splits)

lemma map_of_then_set_int:
  "k \<noteq> key \<Longrightarrow> map_of (fst (and_then out (set_int key v))) k = map_of (fst out) k"
  by (cases out) (simp add: and_then_def map_of_set_int split: option.splits)

lemma map_of_then_set_first_int:
  "k \<noteq> key \<Longrightarrow> map_of (fst (and_then out (set_first_int key found col))) k = map_of (fst out) k"
  by (cases out) (simp add: and_then_def map_of_set_first_int split: option.splits)

lemma lte_details_other:
  assumes "k \<notin> {''LTE_cellidA'', ''LTE_cellidB'', ''LTE_cellidC'', ''xxLTE_SectorCarrier_No_Alphaxx'',
                 ''xxLTE_SectorCarrier_No_Betaxx'', ''xxLTE_SectorCarrier_No_Gammaxx''}"
  shows "map_of (fst (get_lte_cell_details eutran la lb lg r)) k = map_of r k"
  using assms
  by (simp add: get_lte_cell_details_def Let_def map_of_then_set_first_int map_of_set_first_int
      split: option.splits)

lemma emit_dss_cells_roles:
  assumes "set_cell_local_ids cl a b g r = (r1, None)"
  shows "dict_get (fst (emit_dss_cells eutran cl sc dc nc nb a b g r)) ''xxLTE_Site_IDxx_XA_1''
           = Some (py_strip (py_str (a dc)))"
    and "dict_get (fst (emit_dss_cells eutran cl sc dc nc nb a b g r)) ''xxLTE_Site_IDxx_XB_1''
           = Some (py_strip (py_str (b dc)))"
    and "dict_get (fst (emit_dss_cells eutran cl sc dc nc nb a b g r)) ''xxLTE_Site_IDxx_XC_1''
           = Some (py_strip (py_str (g dc)))"
    and "dict_get (fst (emit_dss_cells eutran cl sc dc nc nb a b g r)) ''xx5G_NR_Node_Namexx_N00XA_1''
           = Some (py_strip (py_str (a nc)))"
    and "dict_get (fst (emit_dss_cells eutran cl sc dc nc nb a b g r)) ''xx5G_NR_Node_Namexx_N00XB_1''
           = Some (py_strip (py_str (b nc)))"
    and "dict_get (fst (emit_dss_cells eutran cl sc dc nc nb a b g r)) ''xx5G_NR_Node_Namexx_N00XC_1''
           = Some (py_strip (py_str (g nc)))"
  using assms
  by (simp_all add: emit_dss_cells_def and_then_def Let_def dict_get_def lte_details_other
      map_of_dict_set split: option.splits)


lemma lte_details_alpha_miss:
  assumes "find_column (Some df) [''EutranCellFDDId'', ''EUtranCellFDDId''] = Some ec"
    and "filter (\<lambda>x. cell_eq_str (x ec) la) (rows df) = []"
  shows "get_lte_cell_details (Some df) la lb lg r = (r, None)"
  using assms by (simp add: get_lte_cell_details_def Let_def split: option.splits)

lemma set_first_int_found:
  "found = x # xs \<Longrightarrow> py_int (x col) = Inr i \<Longrightarrow>
     set_first_int key found col r = (dict_set r key (show_int i), None)"
  by (simp add: set_first_int_def set_int_def iloc_def)


lemma lte_details_resolved:
  assumes "find_column (Some df) [''EutranCellFDDId'', ''EUtranCellFDDId''] = Some ec"
    and "find_column (Some df) [''cellId'', ''cellid''] = Some ci"
    and "find_column (Some df) [''sectorId'', ''sectorid''] = Some si"
    and "filter (\<lambda>x. cell_eq_str (x ec) la) (rows df) = x # xs"
  shows "get_lte_cell_details (Some df) la lb lg r =
     and_then (and_then (and_then (and_then (and_then
       (set_first_int ''LTE_cellidA'' (x # xs) ci r)
       (set_first_int ''LTE_cellidB'' (filter (\<lambda>x. cell_eq_str (x ec) lb) (rows df)) ci))
       (set_first_int ''LTE_cellidC'' (filter (\<lambda>x. cell_eq_str (x ec) lg) (rows df)) ci))
       (set_first_int ''xxLTE_SectorCarrier_No_Alphaxx'' (x # xs) si))
       (set_first_int ''xxLTE_SectorCarrier_No_Betaxx'' (filter (\<lambda>x. cell_eq_str (x ec) lb) (rows df)) si))
       (set_first_int ''xxLTE_SectorCarrier_No_Gammaxx'' (filter (\<lambda>x. cell_eq_str (x ec) lg) (rows df)) si)"
proof -
  have "ec \<noteq> []" "ci \<noteq> []" "si \<noteq> []"
    using assms(1,2,3) candidates_nonempty by (blast dest: find_column_Some_nonempty)+
  then show ?thesis
    using assms by (simp add: get_lte_cell_details_def Let_def)
qed


lemma lte_details_all_found:
  assumes "find_column (Some df) [''EutranCellFDDId'', ''EUtranCellFDDId''] = Some ec"
    and "find_column (Some df) [''cellId'', ''cellid''] = Some ci"
    and "find_column (Some df) [''sectorId'', ''sectorid''] = Some si"
    and "filter (\<lambda>x. cell_eq_str (x ec) la) (rows df) = x # xs"
    and "filter (\<lambda>x. cell_eq_str (x ec) lb) (rows df) = y # ys"
    and "filter (\<lambda>x. cell_eq_str (x ec) lg) (rows df) = z # zs"
    and "py_int (x ci) = Inr ia" "py_int (y ci) = Inr ib" "py_int (z ci) = Inr ic"
    and "py_int (x si) = Inr sa" "py_int (y si) = Inr sb" "py_int (z si) = Inr sc"
  shows "get_lte_cell_details (Some df) la lb lg r =
           (dict_set (dict_set (dict_set (dict_set (dict_set (dict_set r
              ''LTE_cellidA'' (show_int ia))
              ''LTE_cellidB'' (show_int ib))
              ''LTE_cellidC'' (show_int ic))
              ''xxLTE_SectorCarrier_No_Alphaxx'' (show_int sa))
              ''xxLTE_SectorCarrier_No_Betaxx'' (show_int sb))
              ''xxLTE_SectorCarrier_No_Gammaxx'' (show_int sc), None)"
  using assms(5-)
  by (simp add: lte_details_resolved [OF assms(1,2,3,4)] set_first_int_found [OF refl] and_then_def)










lemma process_template_warnings:
  assumes "process_template excel template = Inr (out, counts, ws)"
  shows "ws = [] \<or> (\<exists>e. ws = [Error_extracting_DSS_cells e])"
proof -
  from assms have "\<exists>five eutran r r'. extract_dss_cells five eutran r [] = (r', ws)"
    by (auto simp: process_template_def split: option.splits prod.splits sum.splits)
  then obtain five eutran r r' where "extract_dss_cells five eutran r [] = (r', ws)"
    by blast
  then show ?thesis
    using dss_stage_warnings [of five eutran r "[]"] by auto
qed

lemma dss_stage_few_cells:
  assumes "dict_get r ''xx5G_NR_Node_Namexx'' = Some gnb_name"
    and "find_column (Some df) [''gNB Name'', ''gNodeB Name''] = Some gc"
    and "find_column (Some df) [''DSS'', ''dss''] = Some dc"
    and "find_column (Some df) [''NRCellDU'', ''NRCellDu''] = Some nc"
    and "select_dss_cells df gc dc nc gnb_name = Inr cells"
    and "length cells < 3"
  shows "extract_dss_cells (Some df) eutran r ws = (r, ws)"
  using assms(5,6)
  by (simp add: dss_stage_of_try [OF assms(1)] dss_try_resolved [OF assms(1,2,3,4)])

lemma dss_stage_band_miss:
  assumes "dict_get r ''xx5G_NR_Node_Namexx'' = Some gnb_name"
    and "find_column (Some df) [''gNB Name'', ''gNodeB Name''] = Some gc"
    and "find_column (Some df) [''DSS'', ''dss''] = Some dc"
    and "find_column (Some df) [''NRCellDU'', ''NRCellDu''] = Some nc"
    and "select_dss_cells df gc dc nc gnb_name = Inr cells"
    and "3 \<le> length cells"
    and "re_search lte_band_at (py_strip (py_str ((cells ! 0) dc))) = None
         \<or> re_search nr_band_at (py_strip (py_str ((cells ! 0) nc))) = None"
  shows "extract_dss_cells (Some df) eutran r ws = (r, ws)"
  using assms(5,6,7)
  by (auto simp: dss_stage_of_try [OF assms(1)] dss_try_resolved [OF assms(1,2,3,4)]
      split: option.splits)

lemma dss_stage_unresolved:
  assumes "dict_get r ''xx5G_NR_Node_Namexx'' = Some gnb_name"
    and "find_column (Some df) [''gNB Name'', ''gNodeB Name''] = None
         \<or> find_column (Some df) [''DSS'', ''dss''] = None
         \<or> find_column (Some df) [''NRCellDU'', ''NRCellDu''] = None"
  shows "extract_dss_cells (Some df) eutran r ws = (r, ws)"
  by (simp add: dss_stage_of_try [OF assms(1)] dss_try_unresolved [OF assms(2,1)])

lemma dss_stage_few_rows:
  assumes "dict_get r ''xx5G_NR_Node_Namexx'' = Some gnb_name"
    and "find_column (Some df) [''gNB Name'', ''gNodeB Name''] = Some gc"
    and "find_column (Some df) [''DSS'', ''dss''] = Some dc"
    and "find_column (Some df) [''NRCellDU'', ''NRCellDu''] = Some nc"
    and "length (filter (is_dss_cell gc dc gnb_name) (rows df)) < 3"
  shows "fst (extract_dss_cells (Some df) eutran r ws) = r"
proof (cases "select_dss_cells df gc dc nc gnb_name")
  case (Inl e)
  then show ?thesis
    by (simp add: dss_stage_of_try [OF assms(1)] dss_try_resolved [OF assms(1,2,3,4)])
next
  case (Inr cells)
  then have "mset cells = mset (filter (is_dss_cell gc dc gnb_name) (rows df))"
    unfolding select_dss_cells_def by (rule mset_sort_values)
  then have "length cells = length (filter (is_dss_cell gc dc gnb_name) (rows df))"
    by (rule mset_eq_length)
  with assms(5) have "length cells < 3" by simp
  with Inr show ?thesis
    by (simp add: dss_stage_few_cells [OF assms(1,2,3,4)])
qed

lemma dss_stage_roles:
  assumes "dict_get r ''xx5G_NR_Node_Namexx'' = Some gnb_name"
    and "find_column (Some df) [''gNB Name'', ''gNodeB Name''] = Some gc"
    and "find_column (Some df) [''DSS'', ''dss''] = Some dc"
    and "find_column (Some df) [''NRCellDU'', ''NRCellDu''] = Some nc"
    and "select_dss_cells df gc dc nc gnb_name = Inr cells"
    and "3 \<le> length cells"
    and "re_search lte_band_at (py_strip (py_str ((cells ! 0) dc))) = Some lte_band"
    and "re_search nr_band_at (py_strip (py_str ((cells ! 0) nc))) = Some nr_band"
    and "set_cell_local_ids (find_column (Some df) [''cellLocalId'', ''celllocalid''])
           (cells ! 0) (cells ! 1) (cells ! 2) r = (r1, None)"
  shows "dict_get (fst (extract_dss_cells (Some df) eutran r ws)) ''xx5G_NR_Node_Namexx_N00XA_1''
           = Some (py_strip (py_str ((cells ! 0) nc)))"
    and "dict_get (fst (extract_dss_cells (Some df) eutran r ws)) ''xx5G_NR_Node_Namexx_N00XB_1''
           = Some (py_strip (py_str ((cells ! 1) nc)))"
    and "dict_get (fst (extract_dss_cells (Some df) eutran r ws)) ''xx5G_NR_Node_Namexx_N00XC_1''
           = Some (py_strip (py_str ((cells ! 2) nc)))"
    and "dict_get (fst (extract_dss_cells (Some df) eutran r ws)) ''xxLTE_Site_IDxx_XA_1''
           = Some (py_strip (py_str ((cells ! 0) dc)))"
    and "dict_get (fst (extract_dss_cells (Some df) eutran r ws)) ''xxLTE_Site_IDxx_XB_1''
           = Some (py_strip (py_str ((cells ! 1) dc)))"
    and "dict_get (fst (extract_dss_cells (Some df) eutran r ws)) ''xxLTE_Site_IDxx_XC_1''
           = Some (py_strip (py_str ((cells ! 2) dc)))"
proof -
  have stage: "fst (extract_dss_cells (Some df) eutran r ws) =
        fst (emit_dss_cells eutran (find_column (Some df) [''cellLocalId'', ''celllocalid''])
               (find_column (Some df) [''NRSectorCarrier'', ''nrsectorcarrier'']) dc nc nr_band
               (cells ! 0) (cells ! 1) (cells ! 2) r)"
    using assms(5,6,7,8)
    by (simp add: dss_stage_of_try [OF assms(1)] dss_try_resolved [OF assms(1,2,3,4)]
        split: prod.splits option.splits)
  show
    "dict_get (fst (extract_dss_cells (Some df) eutran r ws)) ''xx5G_NR_Node_Namexx_N00XA_1''
           = Some (py_strip (py_str ((cells ! 0) nc)))"
    "dict_get (fst (extract_dss_cells (Some df) eutran r ws)) ''xx5G_NR_Node_Namexx_N00XB_1''
           = Some (py_strip (py_str ((cells ! 1) nc)))"
    "dict_get (fst (extract_dss_cells (Some df) eutran r ws)) ''xx5G_NR_Node_Namexx_N00XC_1''
           = Some (py_strip (py_str ((cells ! 2) nc)))"
    "dict_get (fst (extract_dss_cells (Some df) eutran r ws)) ''xxLTE_Site_IDxx_XA_1''
           = Some (py_strip (py_str ((cells ! 0) dc)))"
    "dict_get (fst (extract_dss_cells (Some df) eutran r ws)) ''xxLTE_Site_IDxx_XB_1''
           = Some (py_strip (py_str ((cells ! 1) dc)))"
    "dict_get (fst (extract_dss_cells (Some df) eutran r ws)) ''xxLTE_Site_IDxx_XC_1''
           = Some (py_strip (py_str ((cells ! 2) dc)))"
    unfolding stage by (rule emit_dss_cells_roles [OF assms(9)])+
qed

lemma dss_stage_exception:
  assumes "dict_get r ''xx5G_NR_Node_Namexx'' = Some gnb_name"
    and "extract_dss_cells_try df eutran r = (r', Some e)"
  shows "extract_dss_cells (Some df) eutran r ws = (r', ws @ [Error_extracting_DSS_cells e])"
  using assms(2) by (simp add: dss_stage_of_try [OF assms(1)])

section \<open>Evaluation of the example tables\<close>

lemma five_g_columns_found:
  assumes "columns df = five_g_columns" and "rows df \<noteq> []"
  shows "find_column (Some df) [''gNB Name'', ''gNodeB Name''] = Some ''gNB Name''"
    and "find_column (Some df) [''DSS'', ''dss''] = Some ''DSS''"
    and "find_column (Some df) [''NRCellDU'', ''NRCellDu''] = Some ''NRCellDU''"
    and "find_column (Some df) [''cellLocalId'', ''celllocalid''] = Some ''cellLocalId''"
    and "find_column (Some df) [''NRSectorCarrier'', ''nrsectorcarrier''] = Some ''NRSectorCarrier''"
proof -
  have ne: "\<not> df_empty df"
    using assms by (simp add: df_empty_def five_g_columns_def)
  have "find_column_loop (df_columns_lower five_g_columns) [''gNB Name'', ''gNodeB Name''] = Some ''gNB Name''"
    "find_column_loop (df_columns_lower five_g_columns) [''DSS'', ''dss''] = Some ''DSS''"
    "find_column_loop (df_columns_lower five_g_columns) [''NRCellDU'', ''NRCellDu''] = Some ''NRCellDU''"
    "find_column_loop (df_columns_lower five_g_columns) [''cellLocalId'', ''celllocalid''] = Some ''cellLocalId''"
    "find_column_loop (df_columns_lower five_g_columns) [''NRSectorCarrier'', ''nrsectorcarrier''] = Some ''NRSectorCarrier''"
    by code_simp+
  with ne assms(1) show
    "find_column (Some df) [''gNB Name'', ''gNodeB Name''] = Some ''gNB Name''"
    "find_column (Some df) [''DSS'', ''dss''] = Some ''DSS''"
    "find_column (Some df) [''NRCellDU'', ''NRCellDu''] = Some ''NRCellDU''"
    "find_column (Some df) [''cellLocalId'', ''celllocalid''] = Some ''cellLocalId''"
    "find_column (Some df) [''NRSectorCarrier'', ''nrsectorcarrier''] = Some ''NRSectorCarrier''"
    by (simp_all add: find_column_def)
qed

lemma eutran_columns_found:
  assumes "columns df = eutran_columns" and "rows df \<noteq> []"
  shows "find_column (Some df) [''EutranCellFDDId'', ''EUtranCellFDDId''] = Some ''EutranCellFDDId''"
    and "find_column (Some df) [''cellId'', ''cellid''] = Some ''cellId''"
    and "find_column (Some df) [''sectorId'', ''sectorid''] = Some ''sectorId''"
    and "find_column (Some df) [''gNB Name'', ''gNodeB Name''] = None"
proof -
  have ne: "\<not> df_empty df"
    using assms by (simp add: df_empty_def eutran_columns_def)
  have "find_column_loop (df_columns_lower eutran_columns) [''EutranCellFDDId'', ''EUtranCellFDDId''] = Some ''EutranCellFDDId''"
    "find_column_loop (df_columns_lower eutran_columns) [''cellId'', ''cellid''] = Some ''cellId''"
    "find_column_loop (df_columns_lower eutran_columns) [''sectorId'', ''sectorid''] = Some ''sectorId''"
    "find_column_loop (df_columns_lower eutran_columns) [''gNB Name'', ''gNodeB Name''] = None"
    by code_simp+
  with ne assms(1) show
    "find_column (Some df) [''EutranCellFDDId'', ''EUtranCellFDDId''] = Some ''EutranCellFDDId''"
    "find_column (Some df) [''cellId'', ''cellid''] = Some ''cellId''"
    "find_column (Some df) [''sectorId'', ''sectorid''] = Some ''sectorId''"
    "find_column (Some df) [''gNB Name'', ''gNodeB Name''] = None"
    by (simp_all add: find_column_def)
qed

lemma primary_example_extracted:
  "extract_primary_node (Some mixed_mode_example) [] = Inr primary_example"
  by code_simp

lemma primary_example_node_name:
  "dict_get primary_example ''xx5G_NR_Node_Namexx'' = Some ''GSITE1''"
  by code_simp

lemma load_sheets_examples:
  "load_sheets workbook_no_beta = (Some mixed_mode_example, Some five_g_example, Some eutran_no_beta)"
  "load_sheets workbook_no_band = (Some mixed_mode_example, Some five_g_no_band, Some eutran_example)"
  "load_sheets workbook_two_cells = (Some mixed_mode_example, Some five_g_two_cells, None)"
  by (simp_all add: load_sheets_def safe_load_sheet_def workbook_no_beta_def workbook_no_band_def
      workbook_two_cells_def same_sheet_name_def py_lower_def py_lower_char_def py_strip_def
      py_isspace_def)


lemma no_band_cells:
  "select_dss_cells five_g_no_band ''gNB Name'' ''DSS'' ''NRCellDU'' ''GSITE1''
     = Inr (projr (select_dss_cells five_g_no_band ''gNB Name'' ''DSS'' ''NRCellDU'' ''GSITE1''))"
  "3 \<le> length (projr (select_dss_cells five_g_no_band ''gNB Name'' ''DSS'' ''NRCellDU'' ''GSITE1''))"
  "re_search lte_band_at (py_strip (py_str
      ((projr (select_dss_cells five_g_no_band ''gNB Name'' ''DSS'' ''NRCellDU'' ''GSITE1'') ! 0) ''DSS''))) = None"
proof -
  have "\<not> isl (select_dss_cells five_g_no_band ''gNB Name'' ''DSS'' ''NRCellDU'' ''GSITE1'')"
    by code_simp
  then show "select_dss_cells five_g_no_band ''gNB Name'' ''DSS'' ''NRCellDU'' ''GSITE1''
     = Inr (projr (select_dss_cells five_g_no_band ''gNB Name'' ''DSS'' ''NRCellDU'' ''GSITE1''))"
    by simp
  show "3 \<le> length (projr (select_dss_cells five_g_no_band ''gNB Name'' ''DSS'' ''NRCellDU'' ''GSITE1''))"
    by code_simp
  show "re_search lte_band_at (py_strip (py_str
      ((projr (select_dss_cells five_g_no_band ''gNB Name'' ''DSS'' ''NRCellDU'' ''GSITE1'') ! 0) ''DSS''))) = None"
    by code_simp
qed

lemma five_g_frames:
  "columns five_g_example = five_g_columns" "rows five_g_example \<noteq> []"
  "columns five_g_no_band = five_g_columns" "rows five_g_no_band \<noteq> []"
  "columns five_g_two_cells = five_g_columns" "rows five_g_two_cells \<noteq> []"
  by (simp_all add: five_g_example_def five_g_no_band_def five_g_two_cells_def)

lemma eutran_frames:
  "columns eutran_example = eutran_columns" "rows eutran_example \<noteq> []"
  "columns eutran_no_beta = eutran_columns" "rows eutran_no_beta \<noteq> []"
  "columns eutran_no_alpha = eutran_columns" "rows eutran_no_alpha \<noteq> []"
  by (simp_all add: eutran_example_def eutran_no_beta_def eutran_no_alpha_def)

text \<open>
  C1, as amended. When the legacy band pattern or the next-gen band pattern does not
  match on the alpha row, the DSS stage emits nothing at all: the placeholder map is
  left as it was, without the band-dependent placeholders and also without the local
  identifiers and the sector carriers, whose emission is inside the same test; and
  nothing is logged.
\<close>

theorem band_miss_emits_nothing:
  assumes "dict_get r ''xx5G_NR_Node_Namexx'' = Some gnb_name"
    and "find_column (Some df) [''gNB Name'', ''gNodeB Name''] = Some gc"
    and "find_column (Some df) [''DSS'', ''dss''] = Some dc"
    and "find_column (Some df) [''NRCellDU'', ''NRCellDu''] = Some nc"
    and "select_dss_cells df gc dc nc gnb_name = Inr cells"
    and "3 \<le> length cells"
    and "re_search lte_band_at (py_strip (py_str ((cells ! 0) dc))) = None
         \<or> re_search nr_band_at (py_strip (py_str ((cells ! 0) nc))) = None"
  shows "extract_dss_cells (Some df) eutran r warnings = (r, warnings)"
  using assms by (rule dss_stage_band_miss)

theorem band_miss_emits_nothing_witness:
  "extract_dss_cells (Some five_g_no_band) (Some eutran_example) primary_example []
     = (primary_example, [])"
  by (rule band_miss_emits_nothing [OF primary_example_node_name
        five_g_columns_found(1,2,3) [OF five_g_frames(3,4)] no_band_cells(1,2)])
     (simp add: no_band_cells(3))

text \<open>
  The claim as stated fails: the columns of the local identifier and of the sector
  carrier are resolved, the legacy band pattern does not match \<open>SITE1X\<close>, and the
  placeholders of the local identifier and of the sector carrier are not emitted; a
  template with them is returned as it is.
\<close>

theorem band_miss_local_ids_counterexample:
  "find_column (Some five_g_no_band) [''cellLocalId'', ''celllocalid''] = Some ''cellLocalId''
   \<and> find_column (Some five_g_no_band) [''NRSectorCarrier'', ''nrsectorcarrier''] = Some ''NRSectorCarrier''
   \<and> re_search lte_band_at ''SITE1X'' = None
   \<and> dict_get (fst (extract_dss_cells (Some five_g_no_band) (Some eutran_example) primary_example []))
        ''xx5G_celllocalidAxx'' = None
   \<and> dict_get (fst (extract_dss_cells (Some five_g_no_band) (Some eutran_example) primary_example []))
        ''xx5G_NRSectorCarrier_Alphaxx'' = None
   \<and> process_template (Some workbook_no_band) (Some ''xx5G_celllocalidAxx xx5G_NRSectorCarrier_Alphaxx'')
        = Inr (''xx5G_celllocalidAxx xx5G_NRSectorCarrier_Alphaxx'', [], [])"
proof -
  have stage: "extract_dss_cells (Some five_g_no_band) (Some eutran_example) primary_example []
     = (primary_example, [])"
    by code_simp
  have fill: "fill_template primary_example ''xx5G_celllocalidAxx xx5G_NRSectorCarrier_Alphaxx''
     = (''xx5G_celllocalidAxx xx5G_NRSectorCarrier_Alphaxx'', [])"
    by code_simp
  have absent: "dict_get primary_example ''xx5G_celllocalidAxx'' = None"
    "dict_get primary_example ''xx5G_NRSectorCarrier_Alphaxx'' = None"
    "re_search lte_band_at ''SITE1X'' = None"
    by code_simp+
  show ?thesis
    using process_template_steps [OF load_sheets_examples(2) primary_example_extracted stage]
    by (simp add: stage fill absent five_g_columns_found(4,5) [OF five_g_frames(3,4)])
qed


lemma nonempty_hd_tl: "0 < length xs \<Longrightarrow> xs = hd xs # tl xs"
  by (cases xs) simp_all

text \<open>
  C3, as amended. The join is gated on the role alpha alone. When the cross-reference
  of alpha matches no row of the sheet, no cell identifier and no sector identifier is
  emitted for any role, also not for a role whose row is there; the stage does not
  fail and logs nothing. When each of the three roles matches a row whose cell
  identifier and sector identifier convert to integers, the six values are emitted.
\<close>

theorem lte_details_gated_on_alpha:
  "(find_column (Some df) [''EutranCellFDDId'', ''EUtranCellFDDId''] = Some ec
      \<and> filter (\<lambda>x. cell_eq_str (x ec) lte_alpha) (rows df) = []
    \<longrightarrow> get_lte_cell_details (Some df) lte_alpha lte_beta lte_gamma r = (r, None))
   \<and> (find_column (Some df) [''EutranCellFDDId'', ''EUtranCellFDDId''] = Some ec
      \<and> find_column (Some df) [''cellId'', ''cellid''] = Some ci
      \<and> find_column (Some df) [''sectorId'', ''sectorid''] = Some si
      \<and> filter (\<lambda>x. cell_eq_str (x ec) lte_alpha) (rows df) = x # xs
      \<and> filter (\<lambda>x. cell_eq_str (x ec) lte_beta) (rows df) = y # ys
      \<and> filter (\<lambda>x. cell_eq_str (x ec) lte_gamma) (rows df) = z # zs
      \<and> py_int (x ci) = Inr ia \<and> py_int (y ci) = Inr ib \<and> py_int (z ci) = Inr ic
      \<and> py_int (x si) = Inr sa \<and> py_int (y si) = Inr sb \<and> py_int (z si) = Inr sc
    \<longrightarrow> get_lte_cell_details (Some df) lte_alpha lte_beta lte_gamma r =
          (dict_set (dict_set (dict_set (dict_set (dict_set (dict_set r
             ''LTE_cellidA'' (show_int ia))
             ''LTE_cellidB'' (show_int ib))
             ''LTE_cellidC'' (show_int ic))
             ''xxLTE_SectorCarrier_No_Alphaxx'' (show_int sa))
             ''xxLTE_SectorCarrier_No_Betaxx'' (show_int sb))
             ''xxLTE_SectorCarrier_No_Gammaxx'' (show_int sc), None))"
proof (intro conjI impI; elim conjE)
  assume "find_column (Some df) [''EutranCellFDDId'', ''EUtranCellFDDId''] = Some ec"
    and "filter (\<lambda>x. cell_eq_str (x ec) lte_alpha) (rows df) = []"
  then show "get_lte_cell_details (Some df) lte_alpha lte_beta lte_gamma r = (r, None)"
    by (rule lte_details_alpha_miss)
next
  assume "find_column (Some df) [''EutranCellFDDId'', ''EUtranCellFDDId''] = Some ec"
    and "find_column (Some df) [''cellId'', ''cellid''] = Some ci"
    and "find_column (Some df) [''sectorId'', ''sectorid''] = Some si"
    and "filter (\<lambda>x. cell_eq_str (x ec) lte_alpha) (rows df) = x # xs"
    and "filter (\<lambda>x. cell_eq_str (x ec) lte_beta) (rows df) = y # ys"
    and "filter (\<lambda>x. cell_eq_str (x ec) lte_gamma) (rows df) = z # zs"
    and "py_int (x ci) = Inr ia" "py_int (y ci) = Inr ib" "py_int (z ci) = Inr ic"
    and "py_int (x si) = Inr sa" "py_int (y si) = Inr sb" "py_int (z si) = Inr sc"
  then show "get_lte_cell_details (Some df) lte_alpha lte_beta lte_gamma r =
          (dict_set (dict_set (dict_set (dict_set (dict_set (dict_set r
             ''LTE_cellidA'' (show_int ia))
             ''LTE_cellidB'' (show_int ib))
             ''LTE_cellidC'' (show_int ic))
             ''xxLTE_SectorCarrier_No_Alphaxx'' (show_int sa))
             ''xxLTE_SectorCarrier_No_Betaxx'' (show_int sb))
             ''xxLTE_SectorCarrier_No_Gammaxx'' (show_int sc), None)"
    by (rule lte_details_all_found)
qed

theorem lte_details_gated_on_alpha_witness:
  "get_lte_cell_details (Some eutran_no_alpha) ''SITE1_66A_1'' ''SITE1_66A_2'' ''SITE1_66B_1'' []
     = ([], None)
   \<and> get_lte_cell_details (Some eutran_example) ''SITE1_66A_1'' ''SITE1_66A_2'' ''SITE1_66B_1'' []
     = ([(''LTE_cellidA'', ''11''), (''LTE_cellidB'', ''12''), (''LTE_cellidC'', ''13''),
         (''xxLTE_SectorCarrier_No_Alphaxx'', ''1''), (''xxLTE_SectorCarrier_No_Betaxx'', ''2''),
         (''xxLTE_SectorCarrier_No_Gammaxx'', ''3'')], None)"
proof -
  let ?a = "filter (\<lambda>x. cell_eq_str (x ''EutranCellFDDId'') ''SITE1_66A_1'') (rows eutran_example)"
  let ?b = "filter (\<lambda>x. cell_eq_str (x ''EutranCellFDDId'') ''SITE1_66A_2'') (rows eutran_example)"
  let ?g = "filter (\<lambda>x. cell_eq_str (x ''EutranCellFDDId'') ''SITE1_66B_1'') (rows eutran_example)"
  have miss: "filter (\<lambda>x. cell_eq_str (x ''EutranCellFDDId'') ''SITE1_66A_1'') (rows eutran_no_alpha) = []"
    by (simp add: eutran_no_alpha_def lte_cell_def mk_row_def)
  have "0 < length ?a" "0 < length ?b" "0 < length ?g"
    by code_simp+
  then have found: "?a = hd ?a # tl ?a" "?b = hd ?b # tl ?b" "?g = hd ?g # tl ?g"
    by (simp_all only: nonempty_hd_tl [symmetric])
  have ids: "py_int (hd ?a ''cellId'') = Inr 11" "py_int (hd ?b ''cellId'') = Inr 12"
    "py_int (hd ?g ''cellId'') = Inr 13" "py_int (hd ?a ''sectorId'') = Inr 1"
    "py_int (hd ?b ''sectorId'') = Inr 2" "py_int (hd ?g ''sectorId'') = Inr 3"
    by code_simp+
  have shown: "show_int 11 = ''11''" "show_int 12 = ''12''" "show_int 13 = ''13''"
    "show_int 1 = ''1''" "show_int 2 = ''2''" "show_int 3 = ''3''"
    by code_simp+
  from lte_details_gated_on_alpha [of eutran_no_alpha "''EutranCellFDDId''" "''SITE1_66A_1''"
      "''SITE1_66A_2''" "''SITE1_66B_1''" "[]"]
    eutran_columns_found(1) [OF eutran_frames(5,6)] miss
  have first: "get_lte_cell_details (Some eutran_no_alpha) ''SITE1_66A_1'' ''SITE1_66A_2'' ''SITE1_66B_1'' []
     = ([], None)"
    by simp
  from lte_details_gated_on_alpha [of eutran_example "''EutranCellFDDId''" "''SITE1_66A_1''"
      "''SITE1_66A_2''" "''SITE1_66B_1''" "[]" "''cellId''" "''sectorId''" "hd ?a" "tl ?a"
      "hd ?b" "tl ?b" "hd ?g" "tl ?g" 11 12 13 1 2 3]
    eutran_columns_found(1,2,3) [OF eutran_frames(1,2)] found ids
  have "get_lte_cell_details (Some eutran_example) ''SITE1_66A_1'' ''SITE1_66A_2'' ''SITE1_66B_1'' []
     = (dict_set (dict_set (dict_set (dict_set (dict_set (dict_set []
             ''LTE_cellidA'' (show_int 11))
             ''LTE_cellidB'' (show_int 12))
             ''LTE_cellidC'' (show_int 13))
             ''xxLTE_SectorCarrier_No_Alphaxx'' (show_int 1))
             ''xxLTE_SectorCarrier_No_Betaxx'' (show_int 2))
             ''xxLTE_SectorCarrier_No_Gammaxx'' (show_int 3), None)"
    by blast
  with first show ?thesis
    by (simp add: shown)
qed

text \<open>
  The claim as stated fails: in \<open>eutran_no_alpha\<close> the rows of the roles beta and gamma
  are there (rows 0 and 1) and the row of alpha is not; nothing is emitted for beta or
  gamma.
\<close>

theorem lte_details_roles_counterexample:
  "safe_get_value (Some eutran_no_alpha) (Some ''EutranCellFDDId'') 0 (StrV []) = StrV ''SITE1_66A_2''
   \<and> safe_get_value (Some eutran_no_alpha) (Some ''EutranCellFDDId'') 1 (StrV []) = StrV ''SITE1_66B_1''
   \<and> get_lte_cell_details (Some eutran_no_alpha) ''SITE1_66A_1'' ''SITE1_66A_2'' ''SITE1_66B_1'' []
       = ([], None)
   \<and> dict_get (fst (get_lte_cell_details (Some eutran_no_alpha)
                       ''SITE1_66A_1'' ''SITE1_66A_2'' ''SITE1_66B_1'' [])) ''LTE_cellidB'' = None"
  by code_simp


lemma example_cells:
  "select_dss_cells five_g_example ''gNB Name'' ''DSS'' ''NRCellDU'' ''GSITE1''
     = Inr (projr (select_dss_cells five_g_example ''gNB Name'' ''DSS'' ''NRCellDU'' ''GSITE1''))"
  "3 \<le> length (projr (select_dss_cells five_g_example ''gNB Name'' ''DSS'' ''NRCellDU'' ''GSITE1''))"
proof -
  have "\<not> isl (select_dss_cells five_g_example ''gNB Name'' ''DSS'' ''NRCellDU'' ''GSITE1'')"
    by code_simp
  then show "select_dss_cells five_g_example ''gNB Name'' ''DSS'' ''NRCellDU'' ''GSITE1''
     = Inr (projr (select_dss_cells five_g_example ''gNB Name'' ''DSS'' ''NRCellDU'' ''GSITE1''))"
    by simp
  show "3 \<le> length (projr (select_dss_cells five_g_example ''gNB Name'' ''DSS'' ''NRCellDU'' ''GSITE1''))"
    by code_simp
qed

text \<open>
  C4. With the columns of the sheet \<open>5G Info\<close> resolved, the cells that
  \<open>select_dss_cells\<close> returns are the rows of the next-gen node whose cross-reference is
  present and is not \<open>NO\<close>, each once, in ascending order of the next-gen cell
  identifier. When there are three or more and the stage goes on to emit (both band
  patterns match and the local identifiers convert), the placeholders of the roles
  A, B and C are taken from the cells at the positions 0, 1 and 2. With fewer than
  three such rows the stage adds no placeholder and \<open>process_template\<close> returns a
  result.
\<close>

theorem dss_triple_selection:
  assumes "load_sheets wb = (mixed_mode_df, Some df, eutran)"
    and "extract_primary_node mixed_mode_df [] = Inr r"
    and "dict_get r ''xx5G_NR_Node_Namexx'' = Some gnb_name"
    and "find_column (Some df) [''gNB Name'', ''gNodeB Name''] = Some gc"
    and "find_column (Some df) [''DSS'', ''dss''] = Some dc"
    and "find_column (Some df) [''NRCellDU'', ''NRCellDu''] = Some nc"
  shows "(\<forall>cells. select_dss_cells df gc dc nc gnb_name = Inr cells \<longrightarrow>
            mset cells = mset (filter (is_dss_cell gc dc gnb_name) (rows df))
            \<and> sorted_wrt (\<lambda>x y. cell_le (x nc) (y nc)) cells
            \<and> (\<forall>lte_band nr_band r1.
                 3 \<le> length cells
                 \<and> re_search lte_band_at (py_strip (py_str ((cells ! 0) dc))) = Some lte_band
                 \<and> re_search nr_band_at (py_strip (py_str ((cells ! 0) nc))) = Some nr_band
                 \<and> set_cell_local_ids (find_column (Some df) [''cellLocalId'', ''celllocalid''])
                      (cells ! 0) (cells ! 1) (cells ! 2) r = (r1, None)
                 \<longrightarrow>
                   dict_get (fst (extract_dss_cells (Some df) eutran r [])) ''xx5G_NR_Node_Namexx_N00XA_1''
                     = Some (py_strip (py_str ((cells ! 0) nc)))
                   \<and> dict_get (fst (extract_dss_cells (Some df) eutran r [])) ''xx5G_NR_Node_Namexx_N00XB_1''
                     = Some (py_strip (py_str ((cells ! 1) nc)))
                   \<and> dict_get (fst (extract_dss_cells (Some df) eutran r [])) ''xx5G_NR_Node_Namexx_N00XC_1''
                     = Some (py_strip (py_str ((cells ! 2) nc)))
                   \<and> dict_get (fst (extract_dss_cells (Some df) eutran r [])) ''xxLTE_Site_IDxx_XA_1''
                     = Some (py_strip (py_str ((cells ! 0) dc)))
                   \<and> dict_get (fst (extract_dss_cells (Some df) eutran r [])) ''xxLTE_Site_IDxx_XB_1''
                     = Some (py_strip (py_str ((cells ! 1) dc)))
                   \<and> dict_get (fst (extract_dss_cells (Some df) eutran r [])) ''xxLTE_Site_IDxx_XC_1''
                     = Some (py_strip (py_str ((cells ! 2) dc)))))
         \<and> (length (filter (is_dss_cell gc dc gnb_name) (rows df)) < 3 \<longrightarrow>
              fst (extract_dss_cells (Some df) eutran r []) = r
              \<and> process_template (Some wb) (Some t)
                  = Inr (fst (fill_template r t), snd (fill_template r t),
                         snd (extract_dss_cells (Some df) eutran r [])))"
proof (intro conjI allI impI)
  fix cells
  assume sel: "select_dss_cells df gc dc nc gnb_name = Inr cells"
  then show "mset cells = mset (filter (is_dss_cell gc dc gnb_name) (rows df))"
    unfolding select_dss_cells_def by (rule mset_sort_values)
  from sel show "sorted_wrt (\<lambda>x y. cell_le (x nc) (y nc)) cells"
    unfolding select_dss_cells_def by (rule sorted_sort_values)
  fix lte_band nr_band r1
  assume "3 \<le> length cells
      \<and> re_search lte_band_at (py_strip (py_str ((cells ! 0) dc))) = Some lte_band
      \<and> re_search nr_band_at (py_strip (py_str ((cells ! 0) nc))) = Some nr_band
      \<and> set_cell_local_ids (find_column (Some df) [''cellLocalId'', ''celllocalid''])
           (cells ! 0) (cells ! 1) (cells ! 2) r = (r1, None)"
  then have h: "3 \<le> length cells"
    "re_search lte_band_at (py_strip (py_str ((cells ! 0) dc))) = Some lte_band"
    "re_search nr_band_at (py_strip (py_str ((cells ! 0) nc))) = Some nr_band"
    "set_cell_local_ids (find_column (Some df) [''cellLocalId'', ''celllocalid''])
           (cells ! 0) (cells ! 1) (cells ! 2) r = (r1, None)"
    by simp_all
  note roles = dss_stage_roles [OF assms(3,4,5,6) sel h]
  show "dict_get (fst (extract_dss_cells (Some df) eutran r [])) ''xx5G_NR_Node_Namexx_N00XA_1''
          = Some (py_strip (py_str ((cells ! 0) nc)))"
    by (rule roles)
  show "dict_get (fst (extract_dss_cells (Some df) eutran r [])) ''xx5G_NR_Node_Namexx_N00XB_1''
          = Some (py_strip (py_str ((cells ! 1) nc)))"
    by (rule roles)
  show "dict_get (fst (extract_dss_cells (Some df) eutran r [])) ''xx5G_NR_Node_Namexx_N00XC_1''
          = Some (py_strip (py_str ((cells ! 2) nc)))"
    by (rule roles)
  show "dict_get (fst (extract_dss_cells (Some df) eutran r [])) ''xxLTE_Site_IDxx_XA_1''
          = Some (py_strip (py_str ((cells ! 0) dc)))"
    by (rule roles)
  show "dict_get (fst (extract_dss_cells (Some df) eutran r [])) ''xxLTE_Site_IDxx_XB_1''
          = Some (py_strip (py_str ((cells ! 1) dc)))"
    by (rule roles)
  show "dict_get (fst (extract_dss_cells (Some df) eutran r [])) ''xxLTE_Site_IDxx_XC_1''
          = Some (py_strip (py_str ((cells ! 2) dc)))"
    by (rule roles)
next
  assume few: "length (filter (is_dss_cell gc dc gnb_name) (rows df)) < 3"
  then show same: "fst (extract_dss_cells (Some df) eutran r []) = r"
    by (rule dss_stage_few_rows [OF assms(3,4,5,6)])
  obtain r' ws where stage: "extract_dss_cells (Some df) eutran r [] = (r', ws)"
    by (cases "extract_dss_cells (Some df) eutran r []")
  with same have "r' = r" by simp
  with process_template_steps [OF assms(1,2) stage] stage
  show "process_template (Some wb) (Some t)
          = Inr (fst (fill_template r t), snd (fill_template r t),
                 snd (extract_dss_cells (Some df) eutran r []))"
    by simp
qed

theorem dss_triple_selection_witness:
  "dict_get (fst (extract_dss_cells (Some five_g_example) (Some eutran_no_beta) primary_example []))
       ''xx5G_NR_Node_Namexx_N00XA_1'' = Some ''SITE1_N066A_1''
   \<and> dict_get (fst (extract_dss_cells (Some five_g_example) (Some eutran_no_beta) primary_example []))
       ''xx5G_NR_Node_Namexx_N00XB_1'' = Some ''SITE1_N066A_2''
   \<and> dict_get (fst (extract_dss_cells (Some five_g_example) (Some eutran_no_beta) primary_example []))
       ''xx5G_NR_Node_Namexx_N00XC_1'' = Some ''SITE1_N066B_1''
   \<and> fst (extract_dss_cells (Some five_g_two_cells) None primary_example []) = primary_example
   \<and> process_template (Some workbook_two_cells) (Some ''xxLTE_eNBIDxx N00XA'')
       = Inr (''100 N00XA'', [(''xxLTE_eNBIDxx'', 1)], [])"
proof -
  let ?cells = "projr (select_dss_cells five_g_example ''gNB Name'' ''DSS'' ''NRCellDU'' ''GSITE1'')"
  let ?ids = "set_cell_local_ids (find_column (Some five_g_example) [''cellLocalId'', ''celllocalid''])
                (?cells ! 0) (?cells ! 1) (?cells ! 2) primary_example"
  have bands: "re_search lte_band_at (py_strip (py_str ((?cells ! 0) ''DSS''))) = Some ''66''"
    "re_search nr_band_at (py_strip (py_str ((?cells ! 0) ''NRCellDU''))) = Some ''N066''"
    by code_simp+
  have "snd ?ids = None"
    by code_simp
  then have ids: "?ids = (fst ?ids, None)"
    by (simp add: prod_eq_iff)
  have names: "py_strip (py_str ((?cells ! 0) ''NRCellDU'')) = ''SITE1_N066A_1''"
    "py_strip (py_str ((?cells ! 1) ''NRCellDU'')) = ''SITE1_N066A_2''"
    "py_strip (py_str ((?cells ! 2) ''NRCellDU'')) = ''SITE1_N066B_1''"
    by code_simp+
  have few: "length (filter (is_dss_cell ''gNB Name'' ''DSS'' ''GSITE1'') (rows five_g_two_cells)) < 3"
    by code_simp
  have fill: "fill_template primary_example ''xxLTE_eNBIDxx N00XA'' = (''100 N00XA'', [(''xxLTE_eNBIDxx'', 1)])"
    by code_simp
  have quiet: "snd (extract_dss_cells (Some five_g_two_cells) None primary_example []) = []"
    by code_simp
  from dss_triple_selection [OF load_sheets_examples(1) primary_example_extracted
      primary_example_node_name five_g_columns_found(1,2,3) [OF five_g_frames(1,2)]]
    example_cells bands ids names
  have three: "dict_get (fst (extract_dss_cells (Some five_g_example) (Some eutran_no_beta) primary_example []))
       ''xx5G_NR_Node_Namexx_N00XA_1'' = Some ''SITE1_N066A_1''
   \<and> dict_get (fst (extract_dss_cells (Some five_g_example) (Some eutran_no_beta) primary_example []))
       ''xx5G_NR_Node_Namexx_N00XB_1'' = Some ''SITE1_N066A_2''
   \<and> dict_get (fst (extract_dss_cells (Some five_g_example) (Some eutran_no_beta) primary_example []))
       ''xx5G_NR_Node_Namexx_N00XC_1'' = Some ''SITE1_N066B_1''"
    by metis
  from dss_triple_selection [OF load_sheets_examples(3) primary_example_extracted
      primary_example_node_name five_g_columns_found(1,2,3) [OF five_g_frames(5,6)],
      of "''xxLTE_eNBIDxx N00XA''"] few fill quiet
  have two: "fst (extract_dss_cells (Some five_g_two_cells) None primary_example []) = primary_example
   \<and> process_template (Some workbook_two_cells) (Some ''xxLTE_eNBIDxx N00XA'')
       = Inr (''100 N00XA'', [(''xxLTE_eNBIDxx'', 1)], [])"
    by simp
  from three two show ?thesis by blast
qed

lemma no_beta_exception:
  "extract_dss_cells_try five_g_example (Some eutran_no_beta) primary_example
     = (fst (extract_dss_cells_try five_g_example (Some eutran_no_beta) primary_example),
        Some IndexError)"
proof -
  have "snd (extract_dss_cells_try five_g_example (Some eutran_no_beta) primary_example)
          = Some IndexError"
    by code_simp
  then show ?thesis
    by (simp add: prod_eq_iff)
qed



text \<open>
  C2: the code does not do what the claim says. The legacy node identifier \<open>abc\<close> is
  not a number, and the \<open>ValueError\<close> of its conversion leaves \<open>process_template\<close>: the
  run is aborted, where the claim has only the placeholder of that field omitted. The
  same happens when the sheet has no column for the identifier: the default that is
  read, the empty string, is not a missing value and is converted all the same.
\<close>

theorem node_id_conversion_aborts:
  "process_template (Some workbook_bad_id) (Some ''xxMMBB_Primary_Node_Namexx xxLTE_eNBIDxx'')
     = Inl ValueError
   \<and> process_template (Some workbook_no_id_column) (Some ''xxMMBB_Primary_Node_Namexx xxLTE_eNBIDxx'')
     = Inl ValueError"
  by code_simp


lemma fill_template_Nil: "fill_template [] t = (t, [])"
  by (simp add: fill_template_def sorted_replacements_def)

lemma process_template_no_mixed_mode:
  assumes "load_sheets wb = (None, five_g_df, eutran_df)"
  shows "process_template (Some wb) (Some t) = Inr (t, [], [])"
proof -
  have "extract_dss_cells five_g_df eutran_df [] [] = ([], [])"
    by (simp add: extract_dss_cells_def dict_has_def split: option.splits)
  with process_template_steps [OF assms, of "[]" "[]" "[]" t] show ?thesis
    by (simp add: extract_primary_node_def fill_template_Nil)
qed

text \<open>
  C9, as amended. Of the degraded conditions, only an exception raised inside the DSS
  stage is logged, as one warning, and the run continues: this is how a legacy cell
  detail lookup that misses for the role beta or gamma, and a cell identifier that
  does not convert, are logged. The other conditions log nothing: a sheet that is not
  found, a column of the sheet \<open>5G Info\<close> that is not found, fewer than three
  qualifying cells, a band pattern that does not match, and a lookup that misses for
  the role alpha all leave the warnings as they were, and a result of
  \<open>process_template\<close> has no warning or one warning of the DSS stage.
\<close>

theorem only_dss_exceptions_are_logged:
  "(process_template excel template = Inr (out, counts, ws)
      \<longrightarrow> ws = [] \<or> (\<exists>e. ws = [Error_extracting_DSS_cells e]))
   \<and> (load_sheets wb = (None, five_g_df, eutran_df)
      \<longrightarrow> process_template (Some wb) (Some t) = Inr (t, [], []))
   \<and> extract_dss_cells None eutran r warnings = (r, warnings)
   \<and> get_lte_cell_details None lte_alpha lte_beta lte_gamma r = (r, None)
   \<and> (dict_get r ''xx5G_NR_Node_Namexx'' = Some gnb_name \<longrightarrow>
        ((find_column (Some df) [''gNB Name'', ''gNodeB Name''] = None
          \<or> find_column (Some df) [''DSS'', ''dss''] = None
          \<or> find_column (Some df) [''NRCellDU'', ''NRCellDu''] = None)
         \<longrightarrow> extract_dss_cells (Some df) eutran r warnings = (r, warnings))
        \<and> (find_column (Some df) [''gNB Name'', ''gNodeB Name''] = Some gc
            \<and> find_column (Some df) [''DSS'', ''dss''] = Some dc
            \<and> find_column (Some df) [''NRCellDU'', ''NRCellDu''] = Some nc
            \<and> select_dss_cells df gc dc nc gnb_name = Inr cells
            \<and> (length cells < 3
                \<or> re_search lte_band_at (py_strip (py_str ((cells ! 0) dc))) = None
                \<or> re_search nr_band_at (py_strip (py_str ((cells ! 0) nc))) = None)
         \<longrightarrow> extract_dss_cells (Some df) eutran r warnings = (r, warnings))
        \<and> (extract_dss_cells_try df eutran r = (r', Some e)
         \<longrightarrow> extract_dss_cells (Some df) eutran r warnings
               = (r', warnings @ [Error_extracting_DSS_cells e])))
   \<and> (find_column (Some edf) [''EutranCellFDDId'', ''EUtranCellFDDId''] = Some ec
        \<and> filter (\<lambda>x. cell_eq_str (x ec) lte_alpha) (rows edf) = []
      \<longrightarrow> get_lte_cell_details (Some edf) lte_alpha lte_beta lte_gamma r = (r, None))"
proof (intro conjI impI)
  assume "process_template excel template = Inr (out, counts, ws)"
  then show "ws = [] \<or> (\<exists>e. ws = [Error_extracting_DSS_cells e])"
    by (rule process_template_warnings)
next
  assume "load_sheets wb = (None, five_g_df, eutran_df)"
  then show "process_template (Some wb) (Some t) = Inr (t, [], [])"
    by (rule process_template_no_mixed_mode)
next
  show "extract_dss_cells None eutran r warnings = (r, warnings)"
    by (simp add: extract_dss_cells_def)
  show "get_lte_cell_details None lte_alpha lte_beta lte_gamma r = (r, None)"
    by (simp add: get_lte_cell_details_def)
next
  assume name: "dict_get r ''xx5G_NR_Node_Namexx'' = Some gnb_name"
  {
    assume "find_column (Some df) [''gNB Name'', ''gNodeB Name''] = None
          \<or> find_column (Some df) [''DSS'', ''dss''] = None
          \<or> find_column (Some df) [''NRCellDU'', ''NRCellDu''] = None"
    then show "extract_dss_cells (Some df) eutran r warnings = (r, warnings)"
      by (rule dss_stage_unresolved [OF name])
  next
    assume "find_column (Some df) [''gNB Name'', ''gNodeB Name''] = Some gc
            \<and> find_column (Some df) [''DSS'', ''dss''] = Some dc
            \<and> find_column (Some df) [''NRCellDU'', ''NRCellDu''] = Some nc
            \<and> select_dss_cells df gc dc nc gnb_name = Inr cells
            \<and> (length cells < 3
                \<or> re_search lte_band_at (py_strip (py_str ((cells ! 0) dc))) = None
                \<or> re_search nr_band_at (py_strip (py_str ((cells ! 0) nc))) = None)"
    then have cols: "find_column (Some df) [''gNB Name'', ''gNodeB Name''] = Some gc"
        "find_column (Some df) [''DSS'', ''dss''] = Some dc"
        "find_column (Some df) [''NRCellDU'', ''NRCellDu''] = Some nc"
      and sel: "select_dss_cells df gc dc nc gnb_name = Inr cells"
      and miss: "length cells < 3
                \<or> re_search lte_band_at (py_strip (py_str ((cells ! 0) dc))) = None
                \<or> re_search nr_band_at (py_strip (py_str ((cells ! 0) nc))) = None"
      by simp_all
    show "extract_dss_cells (Some df) eutran r warnings = (r, warnings)"
    proof (cases "length cells < 3")
      case True
      then show ?thesis
        by (rule dss_stage_few_cells [OF name cols sel])
    next
      case False
      with miss have "3 \<le> length cells"
        and "re_search lte_band_at (py_strip (py_str ((cells ! 0) dc))) = None
                \<or> re_search nr_band_at (py_strip (py_str ((cells ! 0) nc))) = None"
        by auto
      then show ?thesis
        by (rule dss_stage_band_miss [OF name cols sel])
    qed
  next
    assume "extract_dss_cells_try df eutran r = (r', Some e)"
    then show "extract_dss_cells (Some df) eutran r warnings
               = (r', warnings @ [Error_extracting_DSS_cells e])"
      by (rule dss_stage_exception [OF name])
  }
next
  assume "find_column (Some edf) [''EutranCellFDDId'', ''EUtranCellFDDId''] = Some ec
        \<and> filter (\<lambda>x. cell_eq_str (x ec) lte_alpha) (rows edf) = []"
  then show "get_lte_cell_details (Some edf) lte_alpha lte_beta lte_gamma r = (r, None)"
    by (auto intro: lte_details_alpha_miss)
qed


lemma two_cells_selected:
  "select_dss_cells five_g_two_cells ''gNB Name'' ''DSS'' ''NRCellDU'' ''GSITE1''
     = Inr (projr (select_dss_cells five_g_two_cells ''gNB Name'' ''DSS'' ''NRCellDU'' ''GSITE1''))"
  "length (projr (select_dss_cells five_g_two_cells ''gNB Name'' ''DSS'' ''NRCellDU'' ''GSITE1'')) < 3"
proof -
  have "\<not> isl (select_dss_cells five_g_two_cells ''gNB Name'' ''DSS'' ''NRCellDU'' ''GSITE1'')"
    by code_simp
  then show "select_dss_cells five_g_two_cells ''gNB Name'' ''DSS'' ''NRCellDU'' ''GSITE1''
     = Inr (projr (select_dss_cells five_g_two_cells ''gNB Name'' ''DSS'' ''NRCellDU'' ''GSITE1''))"
    by simp
  show "length (projr (select_dss_cells five_g_two_cells ''gNB Name'' ''DSS'' ''NRCellDU'' ''GSITE1'')) < 3"
    by code_simp
qed

theorem only_dss_exceptions_are_logged_witness:
  "process_template (Some []) (Some ''xxLTE_eNBIDxx'') = Inr (''xxLTE_eNBIDxx'', [], [])
   \<and> extract_dss_cells (Some eutran_example) None primary_example [] = (primary_example, [])
   \<and> extract_dss_cells (Some five_g_two_cells) None primary_example [] = (primary_example, [])
   \<and> extract_dss_cells (Some five_g_no_band) (Some eutran_example) primary_example []
       = (primary_example, [])
   \<and> get_lte_cell_details (Some eutran_no_alpha) ''SITE1_66A_1'' ''SITE1_66A_2'' ''SITE1_66B_1''
        primary_example = (primary_example, None)
   \<and> snd (extract_dss_cells (Some five_g_example) (Some eutran_no_beta) primary_example [])
       = [Error_extracting_DSS_cells IndexError]"
proof -
  have sheets: "load_sheets [] = (None, None, None)"
    by (simp add: load_sheets_def safe_load_sheet_def)
  have miss: "filter (\<lambda>x. cell_eq_str (x ''EutranCellFDDId'') ''SITE1_66A_1'') (rows eutran_no_alpha) = []"
    by (simp add: eutran_no_alpha_def lte_cell_def mk_row_def)
  from only_dss_exceptions_are_logged [where wb = "[]" and five_g_df = None and eutran_df = None
      and t = "''xxLTE_eNBIDxx''"] sheets
  have a: "process_template (Some []) (Some ''xxLTE_eNBIDxx'') = Inr (''xxLTE_eNBIDxx'', [], [])"
    by simp
  from only_dss_exceptions_are_logged [where r = primary_example and gnb_name = "''GSITE1''"
      and df = eutran_example and eutran = None and warnings = "[]"]
    primary_example_node_name eutran_columns_found(4) [OF eutran_frames(1,2)]
  have b: "extract_dss_cells (Some eutran_example) None primary_example [] = (primary_example, [])"
    by simp
  from only_dss_exceptions_are_logged [where r = primary_example and gnb_name = "''GSITE1''"
      and df = five_g_two_cells and eutran = None and warnings = "[]"
      and gc = "''gNB Name''" and dc = "''DSS''" and nc = "''NRCellDU''"
      and cells = "projr (select_dss_cells five_g_two_cells ''gNB Name'' ''DSS'' ''NRCellDU'' ''GSITE1'')"]
    primary_example_node_name five_g_columns_found(1,2,3) [OF five_g_frames(5,6)] two_cells_selected
  have c: "extract_dss_cells (Some five_g_two_cells) None primary_example [] = (primary_example, [])"
    by simp
  from only_dss_exceptions_are_logged [where r = primary_example and gnb_name = "''GSITE1''"
      and df = five_g_no_band and eutran = "Some eutran_example" and warnings = "[]"
      and gc = "''gNB Name''" and dc = "''DSS''" and nc = "''NRCellDU''"
      and cells = "projr (select_dss_cells five_g_no_band ''gNB Name'' ''DSS'' ''NRCellDU'' ''GSITE1'')"]
    primary_example_node_name five_g_columns_found(1,2,3) [OF five_g_frames(3,4)] no_band_cells(1,3)
  have d: "extract_dss_cells (Some five_g_no_band) (Some eutran_example) primary_example []
       = (primary_example, [])"
    by simp
  from only_dss_exceptions_are_logged [where r = primary_example and edf = eutran_no_alpha
      and ec = "''EutranCellFDDId''" and lte_alpha = "''SITE1_66A_1''" and lte_beta = "''SITE1_66A_2''"
      and lte_gamma = "''SITE1_66B_1''"]
    eutran_columns_found(1) [OF eutran_frames(5,6)] miss
  have e: "get_lte_cell_details (Some eutran_no_alpha) ''SITE1_66A_1'' ''SITE1_66A_2'' ''SITE1_66B_1''
        primary_example = (primary_example, None)"
    by simp
  from only_dss_exceptions_are_logged [where r = primary_example and gnb_name = "''GSITE1''"
      and df = five_g_example and eutran = "Some eutran_no_beta" and warnings = "[]"
      and r' = "fst (extract_dss_cells_try five_g_example (Some eutran_no_beta) primary_example)"
      and e = IndexError]
    primary_example_node_name no_beta_exception
  have f: "snd (extract_dss_cells (Some five_g_example) (Some eutran_no_beta) primary_example [])
       = [Error_extracting_DSS_cells IndexError]"
    by simp
  from a b c d e f show ?thesis
    by simp
qed

text \<open>
  The claim as stated fails: in a workbook without any of the three sheets, and in one
  with two qualifying cells only and no sheet \<open>eUtran Parameters\<close>, the run completes
  and the list of warnings is empty.
\<close>

theorem silent_degradation_counterexample:
  "load_sheets [] = (None, None, None)
   \<and> process_template (Some []) (Some ''xxLTE_eNBIDxx'') = Inr (''xxLTE_eNBIDxx'', [], [])
   \<and> process_template (Some workbook_two_cells) (Some ''xxLTE_eNBIDxx N00XA'')
       = Inr (''100 N00XA'', [(''xxLTE_eNBIDxx'', 1)], [])"
proof -
  have "load_sheets [] = (None, None, None)"
    by (simp add: load_sheets_def safe_load_sheet_def)
  moreover have "process_template (Some []) (Some ''xxLTE_eNBIDxx'') = Inr (''xxLTE_eNBIDxx'', [], [])"
    by code_simp
  moreover have "process_template (Some workbook_two_cells) (Some ''xxLTE_eNBIDxx N00XA'')
       = Inr (''100 N00XA'', [(''xxLTE_eNBIDxx'', 1)], [])"
    by code_simp
  ultimately show ?thesis by simp
qed

end
